theory Spec2Isabelle
  imports Main "HOL-Library.Word" "HOL-Library.AList"
begin

section \<open>Values, dictionaries and paths\<close>

text \<open>
  The script handles JSON objects loaded from \<^verbatim>\<open>images.json\<close> and the dictionaries it
  builds for its report. Both are Python dictionaries from strings to values; a dictionary
  keeps its keys in insertion order, so it is an association list with
  \<^const>\<open>map_of\<close> as lookup and \<^const>\<open>AList.update\<close> as item assignment (an existing key
  is overwritten in place, a new key is appended).

  Values are the scalars that occur: \<^verbatim>\<open>None\<close>, booleans, integers, strings, paths, and
  floats. A float enters the program only through string formatting, so it is carried as the
  text that \<^verbatim>\<open>str\<close> yields for it (the float \<^verbatim>\<open>-1.0\<close> is
  \<open>PFloat ''-1.0''\<close>). Nested JSON arrays and objects as values are outside the model.
\<close>

type_synonym bytes = "8 word list"
type_synonym path = string

datatype pyval = PNone | PBool bool | PInt int | PFloat string | PStr string | PPath path

type_synonym pydict = "(string \<times> pyval) list"

datatype error =
    KeyError string
  | TypeError
  | RequestException
  | HTTPError nat
  | CvError
  | FileNotFoundError path
  | IsADirectoryError path
  | JSONDecodeError

definition digit_char :: "nat \<Rightarrow> char" where
  "digit_char d = ''0123456789'' ! d"

fun str_nat :: "nat \<Rightarrow> string" where
  "str_nat n = (if n < 10 then [digit_char n] else str_nat (n div 10) @ [digit_char (n mod 10)])"

declare str_nat.simps [simp del]

definition str_int :: "int \<Rightarrow> string" where
  "str_int i = (if i < 0 then CHR ''-'' # str_nat (nat (- i)) else str_nat (nat i))"

text \<open>\<^verbatim>\<open>str(v)\<close>, which is also what an f-string and \<^verbatim>\<open>str.format\<close> insert for
  these values.\<close>

fun py_str :: "pyval \<Rightarrow> string" where
  "py_str PNone = ''None''"
| "py_str (PBool b) = (if b then ''True'' else ''False'')"
| "py_str (PInt i) = str_int i"
| "py_str (PFloat r) = r"
| "py_str (PStr s) = s"
| "py_str (PPath p) = p"

text \<open>\<^verbatim>\<open>s.replace(old, new)\<close> for one-character \<^verbatim>\<open>old\<close> and \<^verbatim>\<open>new\<close>, the only
  way the script calls it: every occurrence is replaced.\<close>

definition replace :: "char \<Rightarrow> char \<Rightarrow> string \<Rightarrow> string" where
  "replace old new s = map (\<lambda>c. if c = old then new else c) s"

text \<open>\<^verbatim>\<open>f"{lat}_{long}".replace(".", "_").replace("-", "n") + ".jpg"\<close>\<close>

definition format_filename :: "pyval \<Rightarrow> pyval \<Rightarrow> string" where
  "format_filename lat long =
     replace CHR ''-'' CHR ''n'' (replace CHR ''.'' CHR ''_'' (py_str lat @ ''_'' @ py_str long))
       @ ''.jpg''"

text \<open>The \<^verbatim>\<open>/\<close> of \<^verbatim>\<open>pathlib\<close> on POSIX paths: an empty right operand changes
  nothing, an absolute one replaces the left operand, an empty left operand is dropped, and
  one separator stands between the two. Paths are compared as texts; repeated separators and
  \<^verbatim>\<open>.\<close> components inside an operand, which \<^verbatim>\<open>pathlib\<close> collapses, are kept as they
  are (the script builds such an operand only from a coordinate text that contains a
  separator).\<close>

definition path_join :: "path \<Rightarrow> string \<Rightarrow> path" where
  "path_join dir name =
     (if name = [] then dir
      else if hd name = CHR ''/'' then name
      else if dir = [] then name
      else if last dir = CHR ''/'' then dir @ name
      else dir @ ''/'' @ name)"

definition NEW_IMAGES :: path where "NEW_IMAGES = ''new_images''"
definition OLD_IMAGES :: path where "OLD_IMAGES = ''old_images''"

section \<open>Decoded images and the comparison primitives\<close>

text \<open>
  \<^verbatim>\<open>cv2.imread\<close> yields \<^verbatim>\<open>None\<close> or an array of unsigned bytes; an array is its
  shape and its elements in row-major order. An array holds as many elements as its shape
  says (\<open>wf_image\<close>).
\<close>

record image =
  shape :: "nat list"
  data :: "8 word list"

definition wf_image :: "image \<Rightarrow> bool" where
  "wf_image a = (length (data a) = prod_list (shape a))"

definition absdiff_u8 :: "8 word \<Rightarrow> 8 word \<Rightarrow> 8 word" where
  "absdiff_u8 x y = (if x \<le> y then y - x else x - y)"

text \<open>\<^verbatim>\<open>cv2.absdiff\<close> of two byte arrays: the element-wise absolute difference when the
  shapes agree; OpenCV raises \<^verbatim>\<open>cv2.error\<close> (sizes of input arguments do not match)
  when they do not.\<close>

definition absdiff :: "image \<Rightarrow> image \<Rightarrow> error + image" where
  "absdiff a b =
     (if shape a = shape b
      then Inr \<lparr>shape = shape a, data = map2 absdiff_u8 (data a) (data b)\<rparr>
      else Inl CvError)"

definition zeros :: "nat list \<Rightarrow> image" where
  "zeros shp = \<lparr>shape = shp, data = replicate (prod_list shp) 0\<rparr>"

definition array_equal :: "image \<Rightarrow> image \<Rightarrow> bool" where
  "array_equal a b = (shape a = shape b \<and> data a = data b)"

section \<open>The environment and the world\<close>

text \<open>
  What the script reads from outside is a parameter: the value of
  \<^verbatim>\<open>GOOGLE_MAPS_API_KEY\<close> after \<^verbatim>\<open>load_dotenv\<close>, the working directory, the remote
  server (the answer to the \<open>k\<close>-th request, \<open>None\<close> when the transport fails, else
  status code and body), the clock (the ISO text of its \<open>k\<close>-th reading), the image
  decoder behind \<^verbatim>\<open>cv2.imread\<close>, and the directories that exist (by absolute path). The
  script creates \<^verbatim>\<open>new_images\<close> and \<^verbatim>\<open>old_images\<close> when the module is loaded and no
  directory afterwards, so the directories are the same throughout a run of \<^verbatim>\<open>main\<close>.
\<close>

record env =
  api_key :: "string option"
  cwd :: path
  net :: "nat \<Rightarrow> string \<Rightarrow> (nat \<times> bytes) option"
  now :: "nat \<Rightarrow> string"
  imdecode :: "bytes \<Rightarrow> image option"
  is_dir :: "path \<Rightarrow> bool"

text \<open>
  What the script changes is the world: the image files (keyed by absolute path), the
  registry file \<^verbatim>\<open>images.json\<close>, the files \<^verbatim>\<open>.env\<close> and
  \<^verbatim>\<open>image_comparison.html\<close>, the requests sent, the number of clock readings taken,
  the console and the commands handed to the shell. The three fixed-name files are kept
  apart from the image files: every image path ends in \<^verbatim>\<open>.jpg\<close>.
\<close>

datatype registry_file = Absent | Unparsable | Json "pydict list option"

datatype printed = Print string | Table "pydict list"

record world =
  images :: "path \<Rightarrow> bytes option"
  registry :: registry_file
  dotenv :: "string option"
  html_report :: "string option"
  requests :: "string list"
  ticks :: nat
  console :: "printed list"
  launched :: "string list"

definition absolute :: "env \<Rightarrow> path \<Rightarrow> path" where
  "absolute ev p = path_join (cwd ev) p"

text \<open>\<^verbatim>\<open>Path.exists()\<close>: a file or a directory is there.\<close>

definition exists_file :: "env \<Rightarrow> world \<Rightarrow> path \<Rightarrow> bool" where
  "exists_file ev w p = (is_dir ev (absolute ev p) \<or> images w (absolute ev p) \<noteq> None)"

text \<open>The parent of a path as \<^verbatim>\<open>pathlib\<close> has it: the text before the last separator, the
  root for a file directly under the root, \<^verbatim>\<open>.\<close> for a bare name.\<close>

definition parent :: "path \<Rightarrow> path" where
  "parent p =
     (let d = rev (drop 1 (dropWhile (\<lambda>c. c \<noteq> CHR ''/'') (rev p)))
      in if d \<noteq> [] then d else if p \<noteq> [] \<and> hd p = CHR ''/'' then ''/'' else ''.'')"

text \<open>Opening a file for reading (\<^verbatim>\<open>open(path, 'rb')\<close>, \<^verbatim>\<open>Path.read_bytes\<close>) raises for a
  directory and for a missing file.\<close>

definition read_bytes :: "env \<Rightarrow> world \<Rightarrow> path \<Rightarrow> error + bytes" where
  "read_bytes ev w p =
     (if is_dir ev (absolute ev p) then Inl (IsADirectoryError p)
      else case images w (absolute ev p) of
             None \<Rightarrow> Inl (FileNotFoundError p)
           | Some content \<Rightarrow> Inr content)"

definition JSON_TEMPLATE :: "pydict list" where
  "JSON_TEMPLATE =
     [[(''lat'', PStr ''0''), (''long'', PStr ''0''), (''zoom'', PInt 10),
       (''name'', PStr ''Location 1'')],
      [(''lat'', PStr ''0''), (''long'', PStr ''0''), (''zoom'', PInt 10),
       (''name'', PStr ''Location 2'')]]"

definition TEMPLATE_URL :: "string \<Rightarrow> string \<Rightarrow> string \<Rightarrow> string \<Rightarrow> string" where
  "TEMPLATE_URL zoom lat long key =
     ''https://maps.googleapis.com/maps/api/staticmap?&zoom='' @ zoom
       @ ''&size=600x300&maptype=hybrid&markers=color:red%7Clabel:S%7C'' @ lat @ '','' @ long
       @ ''&key='' @ key"

section \<open>Fetching and comparing\<close>

text \<open>\<^verbatim>\<open>open(filepath, 'wb')\<close> raises when the path is a directory and when its parent is
  not an existing directory (\<^verbatim>\<open>FileNotFoundError\<close>; \<^verbatim>\<open>NotADirectoryError\<close> when the
  parent is a file, which is not told apart here); otherwise the file is created or
  overwritten. Permissions and full disks are not modelled.\<close>

definition save_image :: "env \<Rightarrow> path \<Rightarrow> bytes \<Rightarrow> world \<Rightarrow> error + world" where
  "save_image ev filepath content w =
     (if is_dir ev (absolute ev filepath) then Inl (IsADirectoryError filepath)
      else if \<not> is_dir ev (parent (absolute ev filepath)) then Inl (FileNotFoundError filepath)
      else Inr (w\<lparr>images := (images w)(absolute ev filepath \<mapsto> content)\<rparr>))"

text \<open>\<^verbatim>\<open>TEMPLATE_URL.format(lat=lat, long=long, api_key=os.getenv(...), zoom=zoom)\<close>; an unset
  variable is \<^verbatim>\<open>None\<close>.\<close>

definition image_url :: "env \<Rightarrow> pyval \<Rightarrow> pyval \<Rightarrow> pyval \<Rightarrow> string" where
  "image_url ev lat long zoom =
     TEMPLATE_URL (py_str zoom) (py_str lat) (py_str long)
       (py_str (case api_key ev of None \<Rightarrow> PNone | Some k \<Rightarrow> PStr k))"

text \<open>\<^verbatim>\<open>requests.get\<close> raises when the transport fails; \<^verbatim>\<open>raise_for_status\<close> raises
  for a status from 400 to 599; writing the body may raise. The request is sent in every
  case.\<close>

definition download_image :: "env \<Rightarrow> pyval \<Rightarrow> pyval \<Rightarrow> pyval \<Rightarrow> world \<Rightarrow> (error + path) \<times> world" where
  "download_image ev lat long zoom w =
     (let url = image_url ev lat long zoom;
          w1 = w\<lparr>requests := requests w @ [url]\<rparr>
      in case net ev (length (requests w)) url of
           None \<Rightarrow> (Inl RequestException, w1)
         | Some (status, body) \<Rightarrow>
             if 400 \<le> status \<and> status < 600 then (Inl (HTTPError status), w1)
             else let new_filepath = path_join NEW_IMAGES (format_filename lat long)
                  in case save_image ev new_filepath body w1 of
                       Inl e \<Rightarrow> (Inl e, w1)
                     | Inr w2 \<Rightarrow> (Inr new_filepath, w2))"

definition imread :: "env \<Rightarrow> world \<Rightarrow> path \<Rightarrow> image option" where
  "imread ev w p =
     (if is_dir ev (absolute ev p) then None
      else case images w (absolute ev p) of None \<Rightarrow> None | Some b \<Rightarrow> imdecode ev b)"

definition images_are_a_match :: "env \<Rightarrow> world \<Rightarrow> path \<Rightarrow> path \<Rightarrow> error + bool" where
  "images_are_a_match ev w old_image new_image =
     (case imread ev w old_image of
        None \<Rightarrow> Inr False
      | Some img1 \<Rightarrow>
          (case imread ev w new_image of
             None \<Rightarrow> Inr False
           | Some img2 \<Rightarrow>
               (case absdiff img1 img2 of
                  Inl e \<Rightarrow> Inl e
                | Inr difference \<Rightarrow> Inr (array_equal difference (zeros (shape difference))))))"

text \<open>\<^verbatim>\<open>d.get(key, default)\<close>\<close>

definition dict_get :: "pydict \<Rightarrow> string \<Rightarrow> pyval \<Rightarrow> pyval" where
  "dict_get d key dflt = (case map_of d key of None \<Rightarrow> dflt | Some v \<Rightarrow> v)"

text \<open>\<^verbatim>\<open>datetime.now().isoformat()\<close>: one more reading of the clock.\<close>

definition datetime_now :: "env \<Rightarrow> world \<Rightarrow> string \<times> world" where
  "datetime_now ev w = (now ev (ticks w), w\<lparr>ticks := Suc (ticks w)\<rparr>)"

section \<open>The update pass\<close>

text \<open>The result dictionary appended for one location.\<close>

definition update_row :: "env \<Rightarrow> pyval \<Rightarrow> pyval \<Rightarrow> pyval \<Rightarrow> string \<Rightarrow> path \<Rightarrow> path \<Rightarrow> pydict" where
  "update_row ev name lat long status old_image new_image =
     [(''Name'', name),
      (''Location'', PStr (py_str lat @ '', '' @ py_str long)),
      (''Status'', PStr status),
      (''old_image'', PPath (absolute ev old_image)),
      (''new_image'', PPath (absolute ev new_image))]"

text \<open>
  The body of the loop of \<^verbatim>\<open>update_images\<close> for one entry. It returns the error raised
  or the dictionary appended to \<^verbatim>\<open>updates\<close>, together with the entry as mutated so far
  and the world as changed so far. The condition of the \<^verbatim>\<open>if\<close> evaluates
  \<^verbatim>\<open>images_are_a_match\<close> only when the old image exists.
\<close>

definition update_entry :: "env \<Rightarrow> pydict \<Rightarrow> world \<Rightarrow> (error + pydict) \<times> pydict \<times> world" where
  "update_entry ev entry w =
     (case map_of entry ''lat'' of
        None \<Rightarrow> (Inl (KeyError ''lat''), entry, w)
      | Some lat \<Rightarrow>
     (case map_of entry ''long'' of
        None \<Rightarrow> (Inl (KeyError ''long''), entry, w)
      | Some long \<Rightarrow>
     (let zoom = dict_get entry ''zoom'' (PInt 17)
      in case download_image ev lat long zoom w of
        (Inl e, w1) \<Rightarrow> (Inl e, entry, w1)
      | (Inr new_image, w1) \<Rightarrow>
     (let old_image = path_join OLD_IMAGES (format_filename lat long)
      in case datetime_now ev w1 of (pulled, w2) \<Rightarrow>
     (let entry1 = AList.update ''last_pulled'' (PStr pulled) entry
      in case (if \<not> exists_file ev w2 old_image then Inr True
               else case images_are_a_match ev w2 old_image new_image of
                      Inl e \<Rightarrow> Inl e
                    | Inr m \<Rightarrow> Inr (\<not> m)) of
        Inl e \<Rightarrow> (Inl e, entry1, w2)
      | Inr differs \<Rightarrow>
          if differs then
            (let status = (if \<not> exists_file ev w2 old_image then ''New'' else ''Changed'')
             in case read_bytes ev w2 new_image of
               Inl e \<Rightarrow> (Inl e, entry1, w2)
             | Inr content \<Rightarrow>
            (case save_image ev old_image content w2 of
               Inl e \<Rightarrow> (Inl e, entry1, w2)
             | Inr w3 \<Rightarrow>
            (case datetime_now ev w3 of (changed, w4) \<Rightarrow>
            (let entry2 = AList.update ''last_changed'' (PStr changed) entry1
             in case map_of entry2 ''name'' of
               None \<Rightarrow> (Inl (KeyError ''name''), entry2, w4)
             | Some name \<Rightarrow>
                 (Inr (update_row ev name lat long status old_image new_image), entry2, w4)))))
          else
            (case map_of entry1 ''name'' of
               None \<Rightarrow> (Inl (KeyError ''name''), entry1, w2)
             | Some name \<Rightarrow>
                 (Inr (update_row ev name lat long ''Unchanged'' old_image new_image),
                  entry1, w2)))))))"

text \<open>The \<^verbatim>\<open>for\<close> loop: an error ends it, leaving the remaining entries untouched.\<close>

fun update_loop ::
  "env \<Rightarrow> pydict list \<Rightarrow> pydict list \<Rightarrow> world \<Rightarrow> (error + pydict list) \<times> pydict list \<times> world" where
  "update_loop ev [] updates w = (Inr updates, [], w)"
| "update_loop ev (entry # rest) updates w =
     (case update_entry ev entry w of
        (Inl e, entry', w') \<Rightarrow> (Inl e, entry' # rest, w')
      | (Inr row, entry', w') \<Rightarrow>
          (case update_loop ev rest (updates @ [row]) w' of
             (r, rest', w'') \<Rightarrow> (r, entry' # rest', w'')))"

text \<open>\<^verbatim>\<open>update_images\<close> returns the error raised or the list \<^verbatim>\<open>updates\<close>, with the
  metadata as mutated in place and the world. \<^verbatim>\<open>not metadata\<close> holds for \<^verbatim>\<open>None\<close> and
  for the empty list.\<close>

definition update_images ::
  "env \<Rightarrow> pydict list option \<Rightarrow> world \<Rightarrow> (error + pydict list) \<times> pydict list option \<times> world" where
  "update_images ev metadata w =
     (if metadata = None \<or> metadata = Some [] then (Inr [], metadata, w)
      else case update_loop ev (the metadata) [] w of
             (r, entries', w') \<Rightarrow> (r, Some entries', w'))"

section \<open>Registry, key check, report and main\<close>

definition save_metadata :: "pydict list option \<Rightarrow> world \<Rightarrow> world" where
  "save_metadata metadata w = w\<lparr>registry := Json metadata\<rparr>"

definition load_metadata :: "world \<Rightarrow> (error + pydict list option) \<times> world" where
  "load_metadata w =
     (case registry w of
        Json metadata \<Rightarrow> (Inr metadata, w)
      | Unparsable \<Rightarrow> (Inl JSONDecodeError, w)
      | Absent \<Rightarrow>
          (Inr None,
           save_metadata (Some JSON_TEMPLATE)
             (w\<lparr>console := console w @ [Print
                ''No images.json file found. Creating one with a template, enter your own data and re-run the script.'']\<rparr>)))"

definition key_char :: "char \<Rightarrow> bool" where
  "key_char c =
     (c \<in> set ''ABCDEFGHIJKLMNOPQRSTUVWXYZabcdefghijklmnopqrstuvwxyz0123456789_-'')"

text \<open>\<^verbatim>\<open>re.match(r'^[A-Za-z0-9_-]{35,40}$', api_key)\<close>; the \<^verbatim>\<open>$\<close> also matches before
  a final newline.\<close>

definition key_matches :: "string \<Rightarrow> bool" where
  "key_matches k =
     (let body = (if k \<noteq> [] \<and> last k = CHR ''\<newline>'' then butlast k else k)
      in 35 \<le> length body \<and> length body \<le> 40 \<and> list_all key_char body)"

definition google_key_loaded :: "env \<Rightarrow> world \<Rightarrow> bool \<times> world" where
  "google_key_loaded ev w =
     (if api_key ev = None \<or> api_key ev = Some [] then
        (False,
         w\<lparr>dotenv := Some ''GOOGLE_MAPS_API_KEY=<your_key_here>'',
           console := console w @ [Print
             ''No GOOGLE_MAPS_API_KEY environment variable found. Open the .env file and enter your API key.'']\<rparr>)
      else if \<not> key_matches (the (api_key ev)) then
        (False,
         w\<lparr>console := console w @ [Print
             ''Invalid GOOGLE_MAPS_API_KEY. Check the .env file and enter a valid API key.'']\<rparr>)
      else (True, w))"

definition b64_char :: "nat \<Rightarrow> char" where
  "b64_char n = ''ABCDEFGHIJKLMNOPQRSTUVWXYZabcdefghijklmnopqrstuvwxyz0123456789+/'' ! n"

fun b64encode :: "bytes \<Rightarrow> string" where
  "b64encode [] = []"
| "b64encode [a] =
     (let x = unat a in [b64_char (x div 4), b64_char ((x mod 4) * 16), CHR ''='', CHR ''=''])"
| "b64encode [a, b] =
     (let x = unat a; y = unat b
      in [b64_char (x div 4), b64_char ((x mod 4) * 16 + y div 16), b64_char ((y mod 16) * 4),
          CHR ''=''])"
| "b64encode (a # b # c # rest) =
     (let x = unat a; y = unat b; z = unat c
      in [b64_char (x div 4), b64_char ((x mod 4) * 16 + y div 16),
          b64_char ((y mod 16) * 4 + z div 64), b64_char (z mod 64)] @ b64encode rest)"

definition image_to_base64 :: "env \<Rightarrow> world \<Rightarrow> pyval \<Rightarrow> error + string" where
  "image_to_base64 ev w v =
     (case (case v of PPath p \<Rightarrow> Some p | PStr p \<Rightarrow> Some p | _ \<Rightarrow> None) of
        None \<Rightarrow> Inl TypeError
      | Some p \<Rightarrow>
          (case read_bytes ev w p of
             Inl e \<Rightarrow> Inl e
           | Inr content \<Rightarrow> Inr (b64encode content)))"

text \<open>The first loop of \<^verbatim>\<open>generate_html\<close>, which adds the two base64 texts to every
  entry.\<close>

fun add_base64 :: "env \<Rightarrow> world \<Rightarrow> pydict list \<Rightarrow> error + pydict list" where
  "add_base64 ev w [] = Inr []"
| "add_base64 ev w (entry # rest) =
     (case map_of entry ''old_image'' of
        None \<Rightarrow> Inl (KeyError ''old_image'')
      | Some old_image \<Rightarrow>
     (case image_to_base64 ev w old_image of
        Inl e \<Rightarrow> Inl e
      | Inr old64 \<Rightarrow>
     (let entry1 = AList.update ''old_image_base64'' (PStr old64) entry
      in case map_of entry1 ''new_image'' of
        None \<Rightarrow> Inl (KeyError ''new_image'')
      | Some new_image \<Rightarrow>
     (case image_to_base64 ev w new_image of
        Inl e \<Rightarrow> Inl e
      | Inr new64 \<Rightarrow>
     (let entry2 = AList.update ''new_image_base64'' (PStr new64) entry1
      in case add_base64 ev w rest of
        Inl e \<Rightarrow> Inl e
      | Inr rest' \<Rightarrow> Inr (entry2 # rest'))))))"

text \<open>
  The template of \<^verbatim>\<open>generate_html\<close>. Jinja resolves \<^verbatim>\<open>entry.key\<close> on a dictionary by
  item lookup (none of the names used is an attribute of \<^verbatim>\<open>dict\<close>); a missing key is
  the undefined value (\<open>None\<close> here), which prints as the empty text and equals no string.
  The text between the tags is emitted as it stands.
\<close>

definition jinja_attr :: "pydict \<Rightarrow> string \<Rightarrow> pyval option" where
  "jinja_attr entry key = map_of entry key"

definition jinja_print :: "pyval option \<Rightarrow> string" where
  "jinja_print v = (case v of None \<Rightarrow> [] | Some x \<Rightarrow> py_str x)"

definition HTML_HEAD :: string where
  \<open>HTML_HEAD =
       ''\<newline>''
       @ ''    <!DOCTYPE html>\<newline>''
       @ ''    <html>\<newline>''
       @ ''    <head>\<newline>''
       @ ''        <title>Image Comparison</title>\<newline>''
       @ ''        <style>\<newline>''
       @ ''            body {font-family: Arial, sans-serif; margin: 20px;}\<newline>''
       @ ''            .container {display: flex; flex-wrap: wrap; justify-content: space-around;}\<newline>''
       @ ''            .image-pair {margin-bottom: 20px;}\<newline>''
       @ ''            img {max-width: 100%; max-height: 200px;}\<newline>''
       @ ''            .caption {text-align: center;}\<newline>''
       @ ''        </style>\<newline>''
       @ ''    </head>\<newline>''
       @ ''    <body>\<newline>''
       @ ''        <h2>Image Comparison</h2>\<newline>''
       @ ''        <div class="container">\<newline>''
       @ ''            ''\<close>

definition HTML_TAIL :: string where
  \<open>HTML_TAIL =
       ''\<newline>''
       @ ''        </div>\<newline>''
       @ ''    </body>\<newline>''
       @ ''    </html>\<newline>''
       @ ''    ''\<close>

definition image_pair :: "pydict \<Rightarrow> string" where
  \<open>image_pair entry =
       ''\<newline>''
       @ ''                    <div class="image-pair">\<newline>''
       @ ''                        <img src="data:image/jpeg;base64,''
       @ jinja_print (jinja_attr entry ''old_image_base64'')
       @ ''" alt="Old Image">\<newline>''
       @ ''                        <img src="data:image/jpeg;base64,''
       @ jinja_print (jinja_attr entry ''new_image_base64'')
       @ ''" alt="New Image">\<newline>''
       @ ''                        <p class="caption">''
       @ jinja_print (jinja_attr entry ''Name'')
       @ '' (''
       @ jinja_print (jinja_attr entry ''Location'')
       @ '')</p>\<newline>''
       @ ''                    </div>\<newline>''
       @ ''                ''\<close>

definition render_entry :: "pydict \<Rightarrow> string" where
  \<open>render_entry entry =
       ''\<newline>''
       @ ''                ''
       @ (if jinja_attr entry ''status'' = Some (PStr ''Changed'') then image_pair entry else [])
       @ ''\<newline>''
       @ ''            ''\<close>

definition render :: "pydict list \<Rightarrow> string" where
  "render metadata = HTML_HEAD @ concat (map render_entry metadata) @ HTML_TAIL"

definition generate_html :: "env \<Rightarrow> pydict list \<Rightarrow> world \<Rightarrow> (error + unit) \<times> world" where
  "generate_html ev metadata w =
     (case add_base64 ev w metadata of
        Inl e \<Rightarrow> (Inl e, w)
      | Inr metadata' \<Rightarrow>
          (Inr (),
           w\<lparr>html_report := Some (render metadata'),
             launched := launched w @ [''image_comparison.html'']\<rparr>))"

text \<open>\<^verbatim>\<open>main\<close>: an error raised anywhere ends the run with the world as it is then.\<close>

definition main :: "env \<Rightarrow> world \<Rightarrow> (error + unit) \<times> world" where
  "main ev w =
     (case google_key_loaded ev w of
        (loaded, w1) \<Rightarrow>
          if \<not> loaded then (Inr (), w1)
          else
     (case load_metadata w1 of
        (Inl e, w2) \<Rightarrow> (Inl e, w2)
      | (Inr metadata, w2) \<Rightarrow>
     (case update_images ev metadata w2 of
        (Inl e, metadata', w3) \<Rightarrow> (Inl e, w3)
      | (Inr updates, metadata', w3) \<Rightarrow>
          if updates \<noteq> [] then
            (let w4 = save_metadata metadata' w3;
                 w5 = w4\<lparr>console := console w4 @ [Table updates]\<rparr>
             in generate_html ev updates w5)
          else (Inr (), w3\<lparr>console := console w3 @ [Print ''No updates to report.'']\<rparr>))))"

section \<open>Notions used in the statements\<close>

text \<open>The two image paths of a location, and the result of the final dictionary display,
  which raises \<^verbatim>\<open>KeyError\<close> when the entry has no \<^verbatim>\<open>name\<close>.\<close>

definition new_path :: "pyval \<Rightarrow> pyval \<Rightarrow> path" where
  "new_path lat long = path_join NEW_IMAGES (format_filename lat long)"

definition old_path :: "pyval \<Rightarrow> pyval \<Rightarrow> path" where
  "old_path lat long = path_join OLD_IMAGES (format_filename lat long)"

definition named_row :: "env \<Rightarrow> pydict \<Rightarrow> pyval \<Rightarrow> pyval \<Rightarrow> string \<Rightarrow> error + pydict" where
  "named_row ev e lat long status =
     (case map_of e ''name'' of
        None \<Rightarrow> Inl (KeyError ''name'')
      | Some name \<Rightarrow>
          Inr (update_row ev name lat long status (old_path lat long) (new_path lat long)))"

text \<open>Two entries agree on every key other than the two timestamps.\<close>

definition same_fields :: "pydict \<Rightarrow> pydict \<Rightarrow> bool" where
  "same_fields e e' =
     (\<forall>k. k \<noteq> ''last_pulled'' \<and> k \<noteq> ''last_changed'' \<longrightarrow> map_of e' k = map_of e k)"

text \<open>The two replacements of \<open>format_filename\<close> as one map over the characters.\<close>

definition escape_char :: "char \<Rightarrow> char" where
  "escape_char c = (if c = CHR ''.'' then CHR ''_'' else if c = CHR ''-'' then CHR ''n'' else c)"

text \<open>The address requested for an entry: its own \<open>zoom\<close> when it has that key, 17
  otherwise.\<close>

definition entry_url :: "env \<Rightarrow> pydict \<Rightarrow> string" where
  "entry_url ev e =
     image_url ev (the (map_of e ''lat'')) (the (map_of e ''long''))
       (case map_of e ''zoom'' of None \<Rightarrow> PInt 17 | Some z \<Rightarrow> z)"


text \<open>A file can be written at a path that is no directory and whose parent is one; the
  error of \<open>save_image\<close> otherwise.\<close>

definition writable :: "env \<Rightarrow> path \<Rightarrow> bool" where
  "writable ev p = (\<not> is_dir ev (absolute ev p) \<and> is_dir ev (parent (absolute ev p)))"

definition write_error :: "env \<Rightarrow> path \<Rightarrow> error" where
  "write_error ev p =
     (if is_dir ev (absolute ev p) then IsADirectoryError p else FileNotFoundError p)"

text \<open>The file name of an entry. An entry is ready when it has the keys \<open>lat\<close>, \<open>long\<close> and
  \<open>name\<close>, its file name contains no separator, and no directory sits at either of its two
  image paths.\<close>

definition entry_filename :: "pydict \<Rightarrow> string" where
  "entry_filename e = format_filename (the (map_of e ''lat'')) (the (map_of e ''long''))"

definition location_ready :: "env \<Rightarrow> pydict \<Rightarrow> bool" where
  "location_ready ev e =
     (map_of e ''lat'' \<noteq> None \<and> map_of e ''long'' \<noteq> None \<and> map_of e ''name'' \<noteq> None
      \<and> CHR ''/'' \<notin> set (entry_filename e)
      \<and> \<not> is_dir ev (absolute ev (path_join NEW_IMAGES (entry_filename e)))
      \<and> \<not> is_dir ev (absolute ev (path_join OLD_IMAGES (entry_filename e))))"



section \<open>A small concrete setting\<close>

text \<open>
  A decoder for a toy image format (height byte, width byte, then three bytes per pixel), a
  server that always answers 200 with the same one-pixel image, a clock whose \<open>k\<close>-th
  reading is the text \<open>T\<close>\<open>k\<close>, the working directory \<^verbatim>\<open>/home/user\<close> with the two image
  directories in it, and a registry with one location.
\<close>

definition demo_decode :: "bytes \<Rightarrow> image option" where
  "demo_decode b =
     (case b of
        h # w # px \<Rightarrow>
          if length px = unat h * unat w * 3
          then Some \<lparr>shape = [unat h, unat w, 3], data = px\<rparr> else None
      | _ \<Rightarrow> None)"

definition demo_env :: env where
  "demo_env =
     \<lparr>api_key = Some ''AAAAAAAAAAAAAAAAAAAAAAAAAAAAAAAAAAAAAAA'', cwd = ''/home/user'',
      net = (\<lambda>k url. Some (200, [1, 1, 10, 20, 30])), now = (\<lambda>k. ''T'' @ str_nat k),
      imdecode = demo_decode,
      is_dir = (\<lambda>p. p \<in> set [''/'', ''/home'', ''/home/user'', ''/home/user/new_images'',
                              ''/home/user/old_images''])\<rparr>"

definition stockholm :: pydict where
  "stockholm =
     [(''lat'', PStr ''59.33''), (''long'', PStr ''18.06''), (''zoom'', PInt 17),
      (''name'', PStr ''Stockholm'')]"

definition demo_world :: "(path \<Rightarrow> bytes option) \<Rightarrow> pydict list \<Rightarrow> world" where
  "demo_world fs md =
     \<lparr>images = fs, registry = Json (Some md), dotenv = None, html_report = None,
      requests = [], ticks = 0, console = [], launched = []\<rparr>"

text \<open>The image store with a given old image for the Stockholm location and the fetched
  one-pixel image as new image; a second location with zoom 0; a server that answers the
  first request with the one-pixel image and every later one with an image of two pixels,
  with the shape of each file name; a server that answers the first request only.\<close>

definition demo_files :: "bytes \<Rightarrow> path \<Rightarrow> bytes option" where
  "demo_files old = [''/home/user/old_images/59_33_18_06.jpg'' \<mapsto> old,
                     ''/home/user/new_images/59_33_18_06.jpg'' \<mapsto> [1, 1, 10, 20, 30]]"

definition oslo :: pydict where
  "oslo = [(''lat'', PStr ''59.91''), (''long'', PStr ''10.75''), (''zoom'', PInt 0),
           (''name'', PStr ''Oslo'')]"



definition offline_env :: env where
  "offline_env = demo_env\<lparr>net := (\<lambda>k url. if k = 0 then Some (200, [1, 1, 10, 20, 30]) else None)\<rparr>"

section \<open>Lemmas about the operations\<close>

lemma format_filename_map:
  "format_filename lat long = map escape_char (py_str lat) @ CHR ''_'' # map escape_char (py_str long) @ ''.jpg''"
  by (simp add: format_filename_def replace_def escape_char_def)

lemma escape_char_inj:
  "escape_char c = escape_char d \<Longrightarrow> c \<noteq> CHR ''_'' \<Longrightarrow> c \<noteq> CHR ''n'' \<Longrightarrow> d \<noteq> CHR ''_'' \<Longrightarrow> d \<noteq> CHR ''n'' \<Longrightarrow> c = d"
  by (auto simp: escape_char_def split: if_splits)

lemma escape_char_underscore:
  "escape_char c = CHR ''_'' \<Longrightarrow> c \<noteq> CHR ''_'' \<Longrightarrow> c = CHR ''.''"
  by (auto simp: escape_char_def split: if_splits)

lemma map_escape_inj:
  "map escape_char s = map escape_char t \<Longrightarrow> CHR ''_'' \<notin> set s \<Longrightarrow> CHR ''n'' \<notin> set s \<Longrightarrow>
   CHR ''_'' \<notin> set t \<Longrightarrow> CHR ''n'' \<notin> set t \<Longrightarrow> s = t"
proof (induction s arbitrary: t)
  case Nil
  then show ?case by simp
next
  case (Cons c s)
  then obtain d t' where t: "t = d # t'" by (cases t) auto
  with Cons.prems have "c = d" by (auto intro: escape_char_inj)
  moreover from Cons t have "s = t'" by auto
  ultimately show ?case using t by simp
qed

lemma escaped_split:
  "map escape_char a @ CHR ''_'' # x = map escape_char b @ CHR ''_'' # y \<Longrightarrow>
   CHR ''_'' \<notin> set a \<Longrightarrow> CHR ''n'' \<notin> set a \<Longrightarrow> CHR ''_'' \<notin> set b \<Longrightarrow> CHR ''n'' \<notin> set b \<Longrightarrow>
   count_list a CHR ''.'' = count_list b CHR ''.'' \<Longrightarrow> a = b \<and> x = y"
proof (induction a arbitrary: b)
  case Nil
  show ?case
  proof (cases b)
    case Nil
    with Nil.prems show ?thesis by simp
  next
    case (Cons d b')
    with Nil.prems have "escape_char d = CHR ''_''" by simp
    with Nil.prems Cons have "d = CHR ''.''" by (auto dest: escape_char_underscore)
    with Nil.prems Cons show ?thesis by simp
  qed
next
  case (Cons c a)
  show ?case
  proof (cases b)
    case Nil
    with Cons.prems have "escape_char c = CHR ''_''" by simp
    with Cons.prems have "c = CHR ''.''" by (auto dest: escape_char_underscore)
    with Cons.prems Nil show ?thesis by simp
  next
    case (Cons d b')
    with Cons.prems have cd: "c = d" by (auto intro: escape_char_inj)
    from Cons.prems Cons cd have "a = b' \<and> x = y"
      by (intro Cons.IH) (auto split: if_splits)
    with cd Cons show ?thesis by simp
  qed
qed

lemma map_of_update: "map_of (AList.update k v al) k' = (if k' = k then Some v else map_of al k')"
  by (simp add: update_conv')

lemma save_image_writable:
  "writable ev p \<Longrightarrow>
   save_image ev p c w = Inr (w\<lparr>images := (images w)(absolute ev p \<mapsto> c)\<rparr>)"
  by (simp add: save_image_def writable_def)

lemma save_image_not_writable:
  "\<not> writable ev p \<Longrightarrow> save_image ev p c w = Inl (write_error ev p)"
  by (auto simp: save_image_def writable_def write_error_def)

lemma read_bytes_file:
  "writable ev p \<Longrightarrow> images w (absolute ev p) = Some c \<Longrightarrow> read_bytes ev w p = Inr c"
  by (simp add: read_bytes_def writable_def)

lemma download_image_cases:
  assumes "download_image ev lat long zoom w = (r, w')"
  obtains
    (failed) e where "r = Inl e" "e = RequestException \<or> (\<exists>s. e = HTTPError s)"
      "w' = w\<lparr>requests := requests w @ [image_url ev lat long zoom]\<rparr>"
      "net ev (length (requests w)) (image_url ev lat long zoom) = None
       \<or> (\<exists>status body. net ev (length (requests w)) (image_url ev lat long zoom) = Some (status, body)
            \<and> 400 \<le> status \<and> status < 600)"
  | (write_failed) status body where "r = Inl (write_error ev (new_path lat long))"
      "net ev (length (requests w)) (image_url ev lat long zoom) = Some (status, body)"
      "\<not> (400 \<le> status \<and> status < 600)"
      "\<not> writable ev (new_path lat long)"
      "w' = w\<lparr>requests := requests w @ [image_url ev lat long zoom]\<rparr>"
  | (fetched) status body where "r = Inr (new_path lat long)"
      "net ev (length (requests w)) (image_url ev lat long zoom) = Some (status, body)"
      "\<not> (400 \<le> status \<and> status < 600)"
      "writable ev (new_path lat long)"
      "w' = w\<lparr>requests := requests w @ [image_url ev lat long zoom],
              images := (images w)(absolute ev (new_path lat long) \<mapsto> body)\<rparr>"
proof (cases "net ev (length (requests w)) (image_url ev lat long zoom)")
  case None
  with assms show ?thesis
    by (intro failed[of RequestException]) (auto simp: download_image_def Let_def)
next
  case (Some sb)
  obtain status body where sb: "sb = (status, body)" by (cases sb)
  show ?thesis
  proof (cases "400 \<le> status \<and> status < 600")
    case True
    with assms Some sb show ?thesis
      by (intro failed[of "HTTPError status"]) (auto simp: download_image_def Let_def)
  next
    case False
    show ?thesis
    proof (cases "writable ev (new_path lat long)")
      case True
      with assms Some sb False show ?thesis
        by (intro fetched[of status body])
          (auto simp: download_image_def Let_def save_image_writable new_path_def[symmetric])
    next
      case nw: False
      with assms Some sb False show ?thesis
        by (intro write_failed[of status body])
          (auto simp: download_image_def Let_def save_image_not_writable new_path_def[symmetric])
    qed
  qed
qed

lemma exists_file_ticks [simp]: "exists_file ev (w\<lparr>ticks := t\<rparr>) p = exists_file ev w p"
  by (simp add: exists_file_def)

lemma imread_ticks [simp]: "imread ev (w\<lparr>ticks := t\<rparr>) p = imread ev w p"
  by (simp add: imread_def)

lemma read_bytes_ticks [simp]: "read_bytes ev (w\<lparr>ticks := t\<rparr>) p = read_bytes ev w p"
  by (simp add: read_bytes_def)

lemma images_are_a_match_ticks [simp]:
  "images_are_a_match ev (w\<lparr>ticks := t\<rparr>) p q = images_are_a_match ev w p q"
  by (simp add: images_are_a_match_def split: option.split)

lemma download_image_Inr:
  assumes "download_image ev lat long zoom w = (Inr p, w1)"
  shows "p = new_path lat long"
    and "\<exists>body. images w1 (absolute ev (new_path lat long)) = Some body"
    and "writable ev (new_path lat long)"
  using assms by (auto elim!: download_image_cases)

lemma update_entry_compare_failed:
  assumes "map_of e ''lat'' = Some lat" "map_of e ''long'' = Some long"
    and "download_image ev lat long (dict_get e ''zoom'' (PInt 17)) w = (Inr (new_path lat long), w1)"
    and "exists_file ev w1 (old_path lat long)"
    and "images_are_a_match ev w1 (old_path lat long) (new_path lat long) = Inl err"
  shows "update_entry ev e w =
     (Inl err, AList.update ''last_pulled'' (PStr (now ev (ticks w1))) e, w1\<lparr>ticks := Suc (ticks w1)\<rparr>)"
  using assms
  by (simp add: update_entry_def Let_def datetime_now_def old_path_def[symmetric])

lemma update_entry_unchanged:
  assumes "map_of e ''lat'' = Some lat" "map_of e ''long'' = Some long"
    and "download_image ev lat long (dict_get e ''zoom'' (PInt 17)) w = (Inr (new_path lat long), w1)"
    and "exists_file ev w1 (old_path lat long)"
    and "images_are_a_match ev w1 (old_path lat long) (new_path lat long) = Inr True"
  shows "update_entry ev e w =
     (named_row ev e lat long ''Unchanged'',
      AList.update ''last_pulled'' (PStr (now ev (ticks w1))) e, w1\<lparr>ticks := Suc (ticks w1)\<rparr>)"
  using assms
  by (simp add: update_entry_def Let_def datetime_now_def old_path_def[symmetric] map_of_update
      named_row_def split: option.split)

lemma update_entry_promoted:
  assumes "map_of e ''lat'' = Some lat" "map_of e ''long'' = Some long"
    and "download_image ev lat long (dict_get e ''zoom'' (PInt 17)) w = (Inr (new_path lat long), w1)"
    and "\<not> exists_file ev w1 (old_path lat long)
       \<or> images_are_a_match ev w1 (old_path lat long) (new_path lat long) = Inr False"
    and "read_bytes ev w1 (new_path lat long) = Inr content"
    and "writable ev (old_path lat long)"
  shows "update_entry ev e w =
     (named_row ev e lat long (if exists_file ev w1 (old_path lat long) then ''Changed'' else ''New''),
      AList.update ''last_changed'' (PStr (now ev (Suc (ticks w1))))
        (AList.update ''last_pulled'' (PStr (now ev (ticks w1))) e),
      w1\<lparr>images := (images w1)(absolute ev (old_path lat long) \<mapsto> content),
         ticks := Suc (Suc (ticks w1))\<rparr>)"
proof (cases "exists_file ev w1 (old_path lat long)")
  case True
  with assms show ?thesis
    by (simp add: update_entry_def Let_def datetime_now_def old_path_def[symmetric] map_of_update
        save_image_writable named_row_def split: option.split)
next
  case False
  with assms(1,2,3,5,6) show ?thesis
    by (simp add: update_entry_def Let_def datetime_now_def old_path_def[symmetric] map_of_update
        save_image_writable named_row_def split: option.split)
qed

lemma update_entry_write_failed:
  assumes "map_of e ''lat'' = Some lat" "map_of e ''long'' = Some long"
    and "download_image ev lat long (dict_get e ''zoom'' (PInt 17)) w = (Inr (new_path lat long), w1)"
    and "\<not> exists_file ev w1 (old_path lat long)
       \<or> images_are_a_match ev w1 (old_path lat long) (new_path lat long) = Inr False"
    and "read_bytes ev w1 (new_path lat long) = Inr content"
    and "\<not> writable ev (old_path lat long)"
  shows "update_entry ev e w =
     (Inl (write_error ev (old_path lat long)),
      AList.update ''last_pulled'' (PStr (now ev (ticks w1))) e, w1\<lparr>ticks := Suc (ticks w1)\<rparr>)"
proof (cases "exists_file ev w1 (old_path lat long)")
  case True
  with assms show ?thesis
    by (simp add: update_entry_def Let_def datetime_now_def old_path_def[symmetric]
        save_image_not_writable)
next
  case False
  with assms(1,2,3,5,6) show ?thesis
    by (simp add: update_entry_def Let_def datetime_now_def old_path_def[symmetric]
        save_image_not_writable)
qed

lemma update_entry_cases [consumes 1, case_names no_lat no_long download_failed compare_failed write_failed promoted unchanged]:
  assumes run: "update_entry ev e w = (r, e', w')"
  obtains
    "map_of e ''lat'' = None" "r = Inl (KeyError ''lat'')" "e' = e" "w' = w"
  | "map_of e ''long'' = None" "r = Inl (KeyError ''long'')" "e' = e" "w' = w"
  | lat long err where "map_of e ''lat'' = Some lat" "map_of e ''long'' = Some long"
      "download_image ev lat long (dict_get e ''zoom'' (PInt 17)) w = (Inl err, w')"
      "r = Inl err" "e' = e"
  | lat long w1 err where "map_of e ''lat'' = Some lat" "map_of e ''long'' = Some long"
      "download_image ev lat long (dict_get e ''zoom'' (PInt 17)) w = (Inr (new_path lat long), w1)"
      "exists_file ev w1 (old_path lat long)"
      "images_are_a_match ev w1 (old_path lat long) (new_path lat long) = Inl err"
      "r = Inl err" "e' = AList.update ''last_pulled'' (PStr (now ev (ticks w1))) e"
      "w' = w1\<lparr>ticks := Suc (ticks w1)\<rparr>"
  | lat long w1 where "map_of e ''lat'' = Some lat" "map_of e ''long'' = Some long"
      "download_image ev lat long (dict_get e ''zoom'' (PInt 17)) w = (Inr (new_path lat long), w1)"
      "\<not> writable ev (old_path lat long)"
      "r = Inl (write_error ev (old_path lat long))"
      "e' = AList.update ''last_pulled'' (PStr (now ev (ticks w1))) e"
      "w' = w1\<lparr>ticks := Suc (ticks w1)\<rparr>"
  | lat long w1 content where "map_of e ''lat'' = Some lat" "map_of e ''long'' = Some long"
      "download_image ev lat long (dict_get e ''zoom'' (PInt 17)) w = (Inr (new_path lat long), w1)"
      "\<not> exists_file ev w1 (old_path lat long)
       \<or> images_are_a_match ev w1 (old_path lat long) (new_path lat long) = Inr False"
      "images w1 (absolute ev (new_path lat long)) = Some content"
      "r = named_row ev e lat long
             (if exists_file ev w1 (old_path lat long) then ''Changed'' else ''New'')"
      "e' = AList.update ''last_changed'' (PStr (now ev (Suc (ticks w1))))
              (AList.update ''last_pulled'' (PStr (now ev (ticks w1))) e)"
      "w' = w1\<lparr>images := (images w1)(absolute ev (old_path lat long) \<mapsto> content),
               ticks := Suc (Suc (ticks w1))\<rparr>"
  | lat long w1 where "map_of e ''lat'' = Some lat" "map_of e ''long'' = Some long"
      "download_image ev lat long (dict_get e ''zoom'' (PInt 17)) w = (Inr (new_path lat long), w1)"
      "exists_file ev w1 (old_path lat long)"
      "images_are_a_match ev w1 (old_path lat long) (new_path lat long) = Inr True"
      "r = named_row ev e lat long ''Unchanged''"
      "e' = AList.update ''last_pulled'' (PStr (now ev (ticks w1))) e"
      "w' = w1\<lparr>ticks := Suc (ticks w1)\<rparr>"
proof (cases "map_of e ''lat''")
  case None
  then have "update_entry ev e w = (Inl (KeyError ''lat''), e, w)"
    by (simp add: update_entry_def)
  with run have "r = Inl (KeyError ''lat'')" "e' = e" "w' = w" by simp_all
  with None show ?thesis by (rule that(1))
next
  case lat: (Some lat)
  show ?thesis
  proof (cases "map_of e ''long''")
    case None
    with lat have "update_entry ev e w = (Inl (KeyError ''long''), e, w)"
      by (simp add: update_entry_def)
    with run have "r = Inl (KeyError ''long'')" "e' = e" "w' = w" by simp_all
    with None show ?thesis by (rule that(2))
  next
    case long: (Some long)
    obtain d w1 where dl: "download_image ev lat long (dict_get e ''zoom'' (PInt 17)) w = (d, w1)"
      by (cases "download_image ev lat long (dict_get e ''zoom'' (PInt 17)) w")
    show ?thesis
    proof (cases d)
      case (Inl err)
      have "update_entry ev e w = (Inl err, e, w1)"
        using lat long dl Inl by (simp add: update_entry_def)
      with run have "r = Inl err" "e' = e" "w1 = w'" by simp_all
      with dl Inl show ?thesis by (intro that(3)[OF lat long]) simp_all
    next
      case (Inr p)
      with dl have p: "p = new_path lat long"
        and "\<exists>body. images w1 (absolute ev (new_path lat long)) = Some body"
        and wn: "writable ev (new_path lat long)"
        by (auto dest: download_image_Inr)
      then obtain content where content: "images w1 (absolute ev (new_path lat long)) = Some content"
        by blast
      note rd = read_bytes_file[OF wn content]
      note dl' = dl[unfolded Inr p]
      consider (new) "\<not> exists_file ev w1 (old_path lat long)"
        | (err) err where "exists_file ev w1 (old_path lat long)"
            "images_are_a_match ev w1 (old_path lat long) (new_path lat long) = Inl err"
        | (differ) "exists_file ev w1 (old_path lat long)"
            "images_are_a_match ev w1 (old_path lat long) (new_path lat long) = Inr False"
        | (same) "exists_file ev w1 (old_path lat long)"
            "images_are_a_match ev w1 (old_path lat long) (new_path lat long) = Inr True"
        by (cases "images_are_a_match ev w1 (old_path lat long) (new_path lat long)") auto
      then show ?thesis
      proof cases
        case err
        from run update_entry_compare_failed[OF lat long dl' err]
        have "r = Inl err" "e' = AList.update ''last_pulled'' (PStr (now ev (ticks w1))) e"
          "w' = w1\<lparr>ticks := Suc (ticks w1)\<rparr>"
          by simp_all
        then show ?thesis by (rule that(4)[OF lat long dl' err])
      next
        case same
        from run update_entry_unchanged[OF lat long dl' same]
        have "r = named_row ev e lat long ''Unchanged''"
          "e' = AList.update ''last_pulled'' (PStr (now ev (ticks w1))) e"
          "w' = w1\<lparr>ticks := Suc (ticks w1)\<rparr>"
          by simp_all
        then show ?thesis by (rule that(7)[OF lat long dl' same])
      next
        case new
        then have c: "\<not> exists_file ev w1 (old_path lat long)
          \<or> images_are_a_match ev w1 (old_path lat long) (new_path lat long) = Inr False" by simp
        show ?thesis
        proof (cases "writable ev (old_path lat long)")
          case True
          from run update_entry_promoted[OF lat long dl' c rd True]
          have "r = named_row ev e lat long
               (if exists_file ev w1 (old_path lat long) then ''Changed'' else ''New'')"
            "e' = AList.update ''last_changed'' (PStr (now ev (Suc (ticks w1))))
                (AList.update ''last_pulled'' (PStr (now ev (ticks w1))) e)"
            "w' = w1\<lparr>images := (images w1)(absolute ev (old_path lat long) \<mapsto> content),
                 ticks := Suc (Suc (ticks w1))\<rparr>"
            by simp_all
          then show ?thesis by (rule that(6)[OF lat long dl' c content])
        next
          case False
          from run update_entry_write_failed[OF lat long dl' c rd False]
          have "r = Inl (write_error ev (old_path lat long))"
            "e' = AList.update ''last_pulled'' (PStr (now ev (ticks w1))) e"
            "w' = w1\<lparr>ticks := Suc (ticks w1)\<rparr>"
            by simp_all
          then show ?thesis by (rule that(5)[OF lat long dl' False])
        qed
      next
        case differ
        then have c: "\<not> exists_file ev w1 (old_path lat long)
          \<or> images_are_a_match ev w1 (old_path lat long) (new_path lat long) = Inr False" by simp
        show ?thesis
        proof (cases "writable ev (old_path lat long)")
          case True
          from run update_entry_promoted[OF lat long dl' c rd True]
          have "r = named_row ev e lat long
               (if exists_file ev w1 (old_path lat long) then ''Changed'' else ''New'')"
            "e' = AList.update ''last_changed'' (PStr (now ev (Suc (ticks w1))))
                (AList.update ''last_pulled'' (PStr (now ev (ticks w1))) e)"
            "w' = w1\<lparr>images := (images w1)(absolute ev (old_path lat long) \<mapsto> content),
                 ticks := Suc (Suc (ticks w1))\<rparr>"
            by simp_all
          then show ?thesis by (rule that(6)[OF lat long dl' c content])
        next
          case False
          from run update_entry_write_failed[OF lat long dl' c rd False]
          have "r = Inl (write_error ev (old_path lat long))"
            "e' = AList.update ''last_pulled'' (PStr (now ev (ticks w1))) e"
            "w' = w1\<lparr>ticks := Suc (ticks w1)\<rparr>"
            by simp_all
          then show ?thesis by (rule that(5)[OF lat long dl' False])
        qed
      qed
    qed
  qed
qed

lemma update_entry_same_fields:
  "update_entry ev e w = (r, e', w') \<Longrightarrow> same_fields e e'"
  by (cases rule: update_entry_cases) (auto simp: same_fields_def map_of_update)

lemma download_image_registry:
  "download_image ev lat long zoom w = (r, w') \<Longrightarrow> registry w' = registry w"
  by (auto elim!: download_image_cases)

lemma update_entry_registry:
  "update_entry ev e w = (r, e', w') \<Longrightarrow> registry w' = registry w"
  by (cases rule: update_entry_cases) (auto dest: download_image_registry)

lemma same_fields_refl: "list_all2 same_fields es es"
  by (rule list_all2_refl) (simp add: same_fields_def)

lemma update_loop_frame:
  "update_loop ev es acc w = (r, es', w') \<Longrightarrow> list_all2 same_fields es es' \<and> registry w' = registry w"
proof (induction es arbitrary: acc w r es' w')
  case Nil
  then show ?case by simp
next
  case (Cons e es)
  obtain r1 e1 w1 where step: "update_entry ev e w = (r1, e1, w1)"
    by (cases "update_entry ev e w")
  note f = update_entry_same_fields[OF step] update_entry_registry[OF step]
  show ?case
  proof (cases r1)
    case (Inl err)
    with Cons.prems step have "es' = e1 # es" "w' = w1" by simp_all
    with f show ?thesis by (simp add: same_fields_refl)
  next
    case (Inr row)
    obtain r2 es2 w2 where rest: "update_loop ev es (acc @ [row]) w1 = (r2, es2, w2)"
      by (cases "update_loop ev es (acc @ [row]) w1")
    with Cons.prems step Inr have "es' = e1 # es2" "w' = w2" by simp_all
    with Cons.IH[OF rest] f show ?thesis by simp
  qed
qed

lemma update_loop_trace:
  "update_loop ev es acc w = (Inr rows, es', w') \<Longrightarrow>
   \<exists>new. rows = acc @ new \<and> length new = length es \<and> length es' = length es \<and>
     (\<forall>i<length es. \<exists>wi wi'. update_entry ev (es ! i) wi = (Inr (new ! i), es' ! i, wi'))"
proof (induction es arbitrary: acc w rows es' w')
  case Nil
  then show ?case by simp
next
  case (Cons e es)
  obtain r1 e1 w1 where step: "update_entry ev e w = (r1, e1, w1)"
    by (cases "update_entry ev e w")
  show ?case
  proof (cases r1)
    case (Inl err)
    with Cons.prems step show ?thesis by simp
  next
    case (Inr row)
    obtain r2 es2 w2 where rest: "update_loop ev es (acc @ [row]) w1 = (r2, es2, w2)"
      by (cases "update_loop ev es (acc @ [row]) w1")
    with Cons.prems step Inr have eq: "r2 = Inr rows" "es' = e1 # es2" "w' = w2" by simp_all
    from Cons.IH[OF rest[unfolded eq(1)]] obtain new where
      new: "rows = (acc @ [row]) @ new" "length new = length es" "length es2 = length es"
        "\<forall>i<length es. \<exists>wi wi'. update_entry ev (es ! i) wi = (Inr (new ! i), es2 ! i, wi')"
      by blast
    have "\<forall>i<length (e # es). \<exists>wi wi'. update_entry ev ((e # es) ! i) wi = (Inr ((row # new) ! i), es' ! i, wi')"
    proof (intro allI impI)
      fix i assume "i < length (e # es)"
      then show "\<exists>wi wi'. update_entry ev ((e # es) ! i) wi = (Inr ((row # new) ! i), es' ! i, wi')"
        using step Inr new(4) eq(2) by (cases i) auto
    qed
    with new eq show ?thesis by (intro exI[of _ "row # new"]) simp
  qed
qed

lemma update_loop_append:
  "update_loop ev (pre @ post) acc w =
     (case update_loop ev pre acc w of
        (Inl e, pre', w1) \<Rightarrow> (Inl e, pre' @ post, w1)
      | (Inr rows, pre', w1) \<Rightarrow>
          (case update_loop ev post rows w1 of (r, post', w2) \<Rightarrow> (r, pre' @ post', w2)))"
proof (induction pre arbitrary: acc w)
  case Nil
  then show ?case by (simp split: prod.split)
next
  case (Cons e pre)
  show ?case
    by (simp add: Cons.IH split: prod.split sum.split)
qed

lemma absdiff_u8_zero: "absdiff_u8 x y = 0 \<longleftrightarrow> x = y"
  by (auto simp: absdiff_u8_def)

lemma map2_absdiff_zero:
  "length xs = n \<Longrightarrow> length ys = n \<Longrightarrow>
   (map2 absdiff_u8 xs ys = replicate n 0) = (xs = ys)"
  by (auto simp: list_eq_iff_nth_eq absdiff_u8_zero)

lemma images_are_a_match_same_shape:
  assumes "imread ev w p = Some a" "imread ev w q = Some b" "shape a = shape b"
  shows "images_are_a_match ev w p q
           = Inr (map2 absdiff_u8 (data a) (data b) = replicate (prod_list (shape a)) 0)"
  using assms by (simp add: images_are_a_match_def absdiff_def array_equal_def zeros_def)

lemma images_are_a_match_undecoded:
  "imread ev w p = None \<or> imread ev w q = None \<Longrightarrow> images_are_a_match ev w p q = Inr False"
  by (auto simp: images_are_a_match_def split: option.split)

lemma images_are_a_match_shape_mismatch:
  "imread ev w p = Some a \<Longrightarrow> imread ev w q = Some b \<Longrightarrow> shape a \<noteq> shape b \<Longrightarrow>
   images_are_a_match ev w p q = Inl CvError"
  by (simp add: images_are_a_match_def absdiff_def)


lemma download_image_ticks:
  "download_image ev lat long zoom w = (r, w') \<Longrightarrow> ticks w' = ticks w"
  by (auto elim!: download_image_cases)

lemma download_image_requests:
  "download_image ev lat long zoom w = (r, w') \<Longrightarrow>
   requests w' = requests w @ [image_url ev lat long zoom]"
  by (auto elim!: download_image_cases)

lemma entry_url_eq:
  "map_of e ''lat'' = Some lat \<Longrightarrow> map_of e ''long'' = Some long \<Longrightarrow>
   image_url ev lat long (dict_get e ''zoom'' (PInt 17)) = entry_url ev e"
  by (simp add: entry_url_def dict_get_def)

lemma named_row_Inr:
  "named_row ev e lat long status = Inr row \<Longrightarrow>
   \<exists>name. map_of e ''name'' = Some name
     \<and> row = update_row ev name lat long status (old_path lat long) (new_path lat long)"
  by (auto simp: named_row_def split: option.splits)

lemma update_entry_Inr:
  assumes "update_entry ev e w = (Inr row, e', w')"
  obtains lat long name status where
    "map_of e ''lat'' = Some lat" "map_of e ''long'' = Some long" "map_of e ''name'' = Some name"
    "row = update_row ev name lat long status (old_path lat long) (new_path lat long)"
    "status = ''New'' \<or> status = ''Changed'' \<or> status = ''Unchanged''"
    "requests w' = requests w @ [entry_url ev e]"
    "map_of e' ''last_pulled'' = Some (PStr (now ev (ticks w)))"
    "status = ''Unchanged'' \<Longrightarrow> map_of e' ''last_changed'' = map_of e ''last_changed''"
    "status \<noteq> ''Unchanged'' \<Longrightarrow> map_of e' ''last_changed'' = Some (PStr (now ev (Suc (ticks w))))"
  using assms
proof (cases rule: update_entry_cases)
  case (promoted lat long w1 content)
  from promoted(6) obtain name where n: "map_of e ''name'' = Some name"
    "row = update_row ev name lat long
       (if exists_file ev w1 (old_path lat long) then ''Changed'' else ''New'')
       (old_path lat long) (new_path lat long)"
    by (auto dest!: named_row_Inr[OF sym])
  show ?thesis
  proof (rule that[OF promoted(1,2) n])
    show "requests w' = requests w @ [entry_url ev e]"
      using promoted download_image_requests[OF promoted(3)] by (simp add: entry_url_eq)
    show "map_of e' ''last_pulled'' = Some (PStr (now ev (ticks w)))"
      using promoted download_image_ticks[OF promoted(3)] by (simp add: map_of_update)
    show "map_of e' ''last_changed'' = Some (PStr (now ev (Suc (ticks w))))"
      using promoted download_image_ticks[OF promoted(3)] by (simp add: map_of_update)
  qed (auto split: if_splits)
next
  case (unchanged lat long w1)
  from unchanged(6) obtain name where n: "map_of e ''name'' = Some name"
    "row = update_row ev name lat long ''Unchanged'' (old_path lat long) (new_path lat long)"
    by (auto dest!: named_row_Inr[OF sym])
  show ?thesis
  proof (rule that[OF unchanged(1,2) n])
    show "requests w' = requests w @ [entry_url ev e]"
      using unchanged download_image_requests[OF unchanged(3)] by (simp add: entry_url_eq)
    show "map_of e' ''last_pulled'' = Some (PStr (now ev (ticks w)))"
      using unchanged download_image_ticks[OF unchanged(3)] by (simp add: map_of_update)
    show "map_of e' ''last_changed'' = map_of e ''last_changed''"
      using unchanged by (simp add: map_of_update)
  qed (auto split: if_splits)
qed auto







lemma ready_keys:
  assumes "location_ready ev e"
  obtains lat long name where "map_of e ''lat'' = Some lat" "map_of e ''long'' = Some long"
    "map_of e ''name'' = Some name" "entry_filename e = format_filename lat long"
    "CHR ''/'' \<notin> set (format_filename lat long)"
  using assms by (auto simp: location_ready_def entry_filename_def)


lemma write_error_not_cv: "write_error ev p \<noteq> CvError"
  by (simp add: write_error_def)





lemma update_loop_requests:
  "update_loop ev es acc w = (Inr rows, es', w') \<Longrightarrow>
   requests w' = requests w @ map (entry_url ev) es"
proof (induction es arbitrary: acc w rows es' w')
  case Nil
  then show ?case by simp
next
  case (Cons e es)
  obtain r1 e1 w1 where step: "update_entry ev e w = (r1, e1, w1)"
    by (cases "update_entry ev e w")
  show ?case
  proof (cases r1)
    case (Inl err)
    with Cons.prems step show ?thesis by simp
  next
    case (Inr row)
    obtain r2 es2 w2 where rest: "update_loop ev es (acc @ [row]) w1 = (r2, es2, w2)"
      by (cases "update_loop ev es (acc @ [row]) w1")
    with Cons.prems step Inr have eq: "r2 = Inr rows" "w' = w2" by simp_all
    from step[unfolded Inr] have "requests w1 = requests w @ [entry_url ev e]"
      by (rule update_entry_Inr)
    with Cons.IH[OF rest[unfolded eq(1)]] eq show ?thesis by simp
  qed
qed

lemma update_images_Some:
  "update_images ev (Some md) w =
     (case update_loop ev md [] w of (r, es', w') \<Rightarrow> (r, Some es', w'))"
  by (cases md) (simp_all add: update_images_def)

lemma update_images_trace:
  assumes "update_images ev (Some md) w = (Inr rows, md', w')"
  shows "\<exists>es'. md' = Some es' \<and> length rows = length md \<and> length es' = length md
    \<and> (\<forall>i<length md. \<exists>wi wi'. update_entry ev (md ! i) wi = (Inr (rows ! i), es' ! i, wi'))
    \<and> requests w' = requests w @ map (entry_url ev) md"
proof -
  obtain r es' w1 where loop: "update_loop ev md [] w = (r, es', w1)"
    by (cases "update_loop ev md [] w")
  with assms have eq: "r = Inr rows" "md' = Some es'" "w1 = w'"
    by (simp_all add: update_images_Some)
  from update_loop_trace[OF loop[unfolded eq]] update_loop_requests[OF loop[unfolded eq]] eq(2)
  show ?thesis by auto
qed

lemma map_of_update_row:
  "map_of (update_row ev name lat long status old new) ''Name'' = Some name"
  "map_of (update_row ev name lat long status old new) ''Location''
     = Some (PStr (py_str lat @ '', '' @ py_str long))"
  "map_of (update_row ev name lat long status old new) ''Status'' = Some (PStr status)"
  "map_of (update_row ev name lat long status old new) ''status'' = None"
  by (simp_all add: update_row_def)






lemma download_image_fails:
  assumes "net ev (length (requests w)) (image_url ev lat long zoom) = None
       \<or> (\<exists>status body. net ev (length (requests w)) (image_url ev lat long zoom) = Some (status, body)
            \<and> 400 \<le> status \<and> status < 600)"
  shows "\<exists>err. (err = RequestException \<or> (\<exists>s. err = HTTPError s))
     \<and> download_image ev lat long zoom w
          = (Inl err, w\<lparr>requests := requests w @ [image_url ev lat long zoom]\<rparr>)"
  using assms by (auto simp: download_image_def Let_def)

lemma update_entry_fetch_fails:
  assumes "map_of e ''lat'' = Some lat" "map_of e ''long'' = Some long"
    and "download_image ev lat long (dict_get e ''zoom'' (PInt 17)) w = (Inl err, w1)"
  shows "update_entry ev e w = (Inl err, e, w1)"
  using assms by (simp add: update_entry_def)

lemma generate_html_registry: "registry (snd (generate_html ev rows w)) = registry w"
  by (simp add: generate_html_def split: sum.split)

lemma main_with_registry:
  assumes "api_key ev = Some k" "k \<noteq> []" "key_matches k" "registry w = Json md"
  shows "main ev w =
     (case update_images ev md w of
        (Inl e, md', w3) \<Rightarrow> (Inl e, w3)
      | (Inr updates, md', w3) \<Rightarrow>
          if updates \<noteq> [] then
            generate_html ev updates
              (w3\<lparr>registry := Json md', console := console w3 @ [Table updates]\<rparr>)
          else (Inr (), w3\<lparr>console := console w3 @ [Print ''No updates to report.'']\<rparr>))"
  using assms
  by (simp add: main_def google_key_loaded_def load_metadata_def save_metadata_def Let_def
      split: prod.split sum.split)

lemma pair3I: "fst x = a \<Longrightarrow> fst (snd x) = b \<Longrightarrow> x = (a, b, snd (snd x))"
  by (cases x) auto

section \<open>The claims\<close>




text \<open>
  Claim C2. When both files decode to arrays of the same shape, \<open>images_are_a_match\<close>
  returns true if and only if every element-wise absolute difference is zero, that is if and
  only if the two arrays are equal; comparing a decodable image with itself returns true.
\<close>

theorem images_are_a_match_iff_zero_difference:
  assumes "imread ev w old_image = Some a" and "imread ev w new_image = Some b"
    and "shape a = shape b" and "wf_image a" and "wf_image b"
  shows "images_are_a_match ev w old_image new_image
           = Inr (\<forall>i<length (data a). absdiff_u8 (data a ! i) (data b ! i) = 0)
         \<and> images_are_a_match ev w old_image new_image = Inr (data a = data b)
         \<and> images_are_a_match ev w old_image old_image = Inr True"
proof -
  from assms have len: "length (data a) = prod_list (shape a)" "length (data b) = prod_list (shape a)"
    by (simp_all add: wf_image_def)
  have m: "images_are_a_match ev w old_image new_image = Inr (data a = data b)"
    using images_are_a_match_same_shape[OF assms(1,2,3)] map2_absdiff_zero[OF len] by simp
  have "(\<forall>i<length (data a). absdiff_u8 (data a ! i) (data b ! i) = 0) = (data a = data b)"
    using len by (auto simp: list_eq_iff_nth_eq absdiff_u8_zero)
  moreover have "images_are_a_match ev w old_image old_image = Inr True"
    using images_are_a_match_same_shape[OF assms(1) assms(1)] map2_absdiff_zero[OF len(1) len(1)]
    by simp
  ultimately show ?thesis using m by simp
qed

text \<open>
  The claim at two one-pixel images that differ in one channel.
\<close>

theorem images_are_a_match_iff_zero_difference_witness: "wf_image \<lparr>shape = [1, 1, 3], data = [10, 20, 30]\<rparr> \<and>
  wf_image \<lparr>shape = [1, 1, 3], data = [10, 20, 31]\<rparr> \<and>
  imread demo_env (demo_world (demo_files [1, 1, 10, 20, 31]) [stockholm])
      ''old_images/59_33_18_06.jpg'' = Some \<lparr>shape = [1, 1, 3], data = [10, 20, 31]\<rparr>
  \<and> imread demo_env (demo_world (demo_files [1, 1, 10, 20, 31]) [stockholm])
      ''new_images/59_33_18_06.jpg'' = Some \<lparr>shape = [1, 1, 3], data = [10, 20, 30]\<rparr>
  \<and> images_are_a_match demo_env (demo_world (demo_files [1, 1, 10, 20, 31]) [stockholm])
      ''old_images/59_33_18_06.jpg'' ''new_images/59_33_18_06.jpg'' = Inr False"
proof -
  have 1: "imread demo_env (demo_world (demo_files [1, 1, 10, 20, 31]) [stockholm])
      ''old_images/59_33_18_06.jpg'' = Some \<lparr>shape = [1, 1, 3], data = [10, 20, 31]\<rparr>"
    by code_simp
  have 2: "imread demo_env (demo_world (demo_files [1, 1, 10, 20, 31]) [stockholm])
      ''new_images/59_33_18_06.jpg'' = Some \<lparr>shape = [1, 1, 3], data = [10, 20, 30]\<rparr>"
    by code_simp
  have 3: "wf_image \<lparr>shape = [1, 1, 3], data = [10, 20, 30]\<rparr>"
    "wf_image \<lparr>shape = [1, 1, 3], data = [10, 20, 31]\<rparr>" by (simp_all add: wf_image_def)
  have 4: "shape \<lparr>shape = [1, 1, 3], data = [10, 20, 31::8 word]\<rparr>
      = shape \<lparr>shape = [1, 1, 3], data = [10, 20, 30::8 word]\<rparr>" by simp
  from images_are_a_match_iff_zero_difference[OF 1 2 4 3(2) 3(1)]
  have "images_are_a_match demo_env (demo_world (demo_files [1, 1, 10, 20, 31]) [stockholm])
      ''old_images/59_33_18_06.jpg'' ''new_images/59_33_18_06.jpg''
      = Inr (data \<lparr>shape = [1, 1, 3], data = [10, 20, 31::8 word]\<rparr>
              = data \<lparr>shape = [1, 1, 3], data = [10, 20, 30::8 word]\<rparr>)"
    by (rule conjunct1[OF conjunct2])
  with 1 2 3 show ?thesis by simp
qed

text \<open>
  Claim C3, as amended. For every processed location the status is \<open>New\<close>, \<open>Changed\<close>
  or \<open>Unchanged\<close>; \<open>last_changed\<close> is set to a reading of the clock when the status is
  \<open>New\<close> or \<open>Changed\<close>, and keeps its value when the status is \<open>Unchanged\<close>.
\<close>

theorem last_changed_set_for_new_and_changed:
  assumes "update_images ev (Some md) w = (Inr rows, Some md', w')" and "i < length md"
  shows "(map_of (rows ! i) ''Status'' = Some (PStr ''Unchanged'')
            \<longrightarrow> map_of (md' ! i) ''last_changed'' = map_of (md ! i) ''last_changed'')
         \<and> (map_of (rows ! i) ''Status'' = Some (PStr ''New'')
              \<or> map_of (rows ! i) ''Status'' = Some (PStr ''Changed'')
            \<longrightarrow> (\<exists>t. map_of (md' ! i) ''last_changed'' = Some (PStr (now ev t))))
         \<and> (map_of (rows ! i) ''Status'' = Some (PStr ''New'')
              \<or> map_of (rows ! i) ''Status'' = Some (PStr ''Changed'')
              \<or> map_of (rows ! i) ''Status'' = Some (PStr ''Unchanged''))"
proof -
  from update_images_trace[OF assms(1)] assms(2) obtain wi wi' where
    "update_entry ev (md ! i) wi = (Inr (rows ! i), md' ! i, wi')" by auto
  then show ?thesis
    by (rule update_entry_Inr) (auto simp: map_of_update_row)
qed

text \<open>
  The amended claim at a run with one unchanged and one new location.
\<close>

theorem last_changed_set_for_new_and_changed_witness:
  "update_images demo_env (Some [stockholm, oslo])
      (demo_world (demo_files [1, 1, 10, 20, 30]) [stockholm, oslo])
     = (Inr [update_row demo_env (PStr ''Stockholm'') (PStr ''59.33'') (PStr ''18.06'') ''Unchanged''
               ''old_images/59_33_18_06.jpg'' ''new_images/59_33_18_06.jpg'',
             update_row demo_env (PStr ''Oslo'') (PStr ''59.91'') (PStr ''10.75'') ''New''
               ''old_images/59_91_10_75.jpg'' ''new_images/59_91_10_75.jpg''],
        Some [stockholm @ [(''last_pulled'', PStr ''T0'')],
              oslo @ [(''last_pulled'', PStr ''T1''), (''last_changed'', PStr ''T2'')]],
        snd (snd (update_images demo_env (Some [stockholm, oslo])
          (demo_world (demo_files [1, 1, 10, 20, 30]) [stockholm, oslo]))))
   \<and> map_of (stockholm @ [(''last_pulled'', PStr ''T0'')]) ''last_changed''
       = map_of stockholm ''last_changed''
   \<and> (\<exists>t. map_of (oslo @ [(''last_pulled'', PStr ''T1''), (''last_changed'', PStr ''T2'')])
              ''last_changed'' = Some (PStr (now demo_env t)))"
proof -
  have 1: "fst (update_images demo_env (Some [stockholm, oslo])
      (demo_world (demo_files [1, 1, 10, 20, 30]) [stockholm, oslo]))
     = Inr [update_row demo_env (PStr ''Stockholm'') (PStr ''59.33'') (PStr ''18.06'') ''Unchanged''
               ''old_images/59_33_18_06.jpg'' ''new_images/59_33_18_06.jpg'',
             update_row demo_env (PStr ''Oslo'') (PStr ''59.91'') (PStr ''10.75'') ''New''
               ''old_images/59_91_10_75.jpg'' ''new_images/59_91_10_75.jpg'']"
    by code_simp
  have 2: "fst (snd (update_images demo_env (Some [stockholm, oslo])
      (demo_world (demo_files [1, 1, 10, 20, 30]) [stockholm, oslo])))
     = Some [stockholm @ [(''last_pulled'', PStr ''T0'')],
              oslo @ [(''last_pulled'', PStr ''T1''), (''last_changed'', PStr ''T2'')]]"
    by code_simp
  note run = pair3I[OF 1 2]
  from last_changed_set_for_new_and_changed[OF run, of 0] last_changed_set_for_new_and_changed[OF run, of 1] run show ?thesis
    by (simp add: map_of_update_row)
qed

text \<open>
  The claim as stated fails: a location without a stored image gets the status \<open>New\<close>
  and its \<open>last_changed\<close>, absent before, is set.
\<close>

theorem last_changed_set_for_new_location:
  "fst (update_images demo_env (Some [stockholm]) (demo_world Map.empty [stockholm]))
     = Inr [[(''Name'', PStr ''Stockholm''), (''Location'', PStr ''59.33, 18.06''),
             (''Status'', PStr ''New''),
             (''old_image'', PPath ''/home/user/old_images/59_33_18_06.jpg''),
             (''new_image'', PPath ''/home/user/new_images/59_33_18_06.jpg'')]]
   \<and> map_of stockholm ''last_changed'' = None
   \<and> fst (snd (update_images demo_env (Some [stockholm]) (demo_world Map.empty [stockholm])))
     = Some [stockholm @ [(''last_pulled'', PStr ''T0''), (''last_changed'', PStr ''T1'')]]"
  by code_simp

text \<open>
  Claim C4, as amended. If either file fails to decode, \<open>images_are_a_match\<close> returns
  false without raising; if both decode to the same shape it returns a verdict; if both decode
  to different shapes the error of \<open>cv2.absdiff\<close> propagates.
\<close>

theorem images_are_a_match_outcomes:
  "(imread ev w old_image = None \<or> imread ev w new_image = None
      \<longrightarrow> images_are_a_match ev w old_image new_image = Inr False)
   \<and> (\<forall>a b. imread ev w old_image = Some a \<and> imread ev w new_image = Some b \<longrightarrow>
        (shape a = shape b \<longrightarrow> (\<exists>m. images_are_a_match ev w old_image new_image = Inr m))
        \<and> (shape a \<noteq> shape b \<longrightarrow> images_are_a_match ev w old_image new_image = Inl CvError))"
  by (auto simp: images_are_a_match_undecoded images_are_a_match_shape_mismatch
      images_are_a_match_same_shape)

text \<open>
  The amended claim at an undecodable stored image, at one of the fetched shape and at one
  of another shape.
\<close>

theorem images_are_a_match_outcomes_witness:
  "imread demo_env (demo_world (demo_files [7]) [stockholm]) ''old_images/59_33_18_06.jpg'' = None
   \<and> images_are_a_match demo_env (demo_world (demo_files [7]) [stockholm])
        ''old_images/59_33_18_06.jpg'' ''new_images/59_33_18_06.jpg'' = Inr False
   \<and> (\<exists>m. images_are_a_match demo_env (demo_world (demo_files [1, 1, 10, 20, 31]) [stockholm])
        ''old_images/59_33_18_06.jpg'' ''new_images/59_33_18_06.jpg'' = Inr m)
   \<and> images_are_a_match demo_env (demo_world (demo_files [2, 1, 0, 0, 0, 0, 0, 0]) [stockholm])
        ''old_images/59_33_18_06.jpg'' ''new_images/59_33_18_06.jpg'' = Inl CvError"
proof -
  have 1: "imread demo_env (demo_world (demo_files [7]) [stockholm])
      ''old_images/59_33_18_06.jpg'' = None" by code_simp
  have 2: "imread demo_env (demo_world (demo_files [1, 1, 10, 20, 31]) [stockholm])
      ''old_images/59_33_18_06.jpg'' = Some \<lparr>shape = [1, 1, 3], data = [10, 20, 31]\<rparr>"
    "imread demo_env (demo_world (demo_files [1, 1, 10, 20, 31]) [stockholm])
      ''new_images/59_33_18_06.jpg'' = Some \<lparr>shape = [1, 1, 3], data = [10, 20, 30]\<rparr>"
    by code_simp+
  have 3: "imread demo_env (demo_world (demo_files [2, 1, 0, 0, 0, 0, 0, 0]) [stockholm])
      ''old_images/59_33_18_06.jpg'' = Some \<lparr>shape = [2, 1, 3], data = [0, 0, 0, 0, 0, 0]\<rparr>"
    "imread demo_env (demo_world (demo_files [2, 1, 0, 0, 0, 0, 0, 0]) [stockholm])
      ''new_images/59_33_18_06.jpg'' = Some \<lparr>shape = [1, 1, 3], data = [10, 20, 30]\<rparr>"
    by code_simp+
  from images_are_a_match_outcomes[of demo_env "demo_world (demo_files [7]) [stockholm]"
        "''old_images/59_33_18_06.jpg''" "''new_images/59_33_18_06.jpg''"] 1
  have a: "images_are_a_match demo_env (demo_world (demo_files [7]) [stockholm])
        ''old_images/59_33_18_06.jpg'' ''new_images/59_33_18_06.jpg'' = Inr False" by blast
  from images_are_a_match_outcomes[of demo_env "demo_world (demo_files [1, 1, 10, 20, 31]) [stockholm]"
        "''old_images/59_33_18_06.jpg''" "''new_images/59_33_18_06.jpg''"] 2
  have b: "\<exists>m. images_are_a_match demo_env (demo_world (demo_files [1, 1, 10, 20, 31]) [stockholm])
        ''old_images/59_33_18_06.jpg'' ''new_images/59_33_18_06.jpg'' = Inr m" by simp
  from images_are_a_match_outcomes[of demo_env "demo_world (demo_files [2, 1, 0, 0, 0, 0, 0, 0]) [stockholm]"
        "''old_images/59_33_18_06.jpg''" "''new_images/59_33_18_06.jpg''"] 3
  have c: "images_are_a_match demo_env (demo_world (demo_files [2, 1, 0, 0, 0, 0, 0, 0]) [stockholm])
        ''old_images/59_33_18_06.jpg'' ''new_images/59_33_18_06.jpg'' = Inl CvError" by simp
  from 1 a b c show ?thesis by blast
qed

text \<open>
  The claim as stated fails: two decodable images of different shapes make the comparison
  raise.
\<close>

theorem images_are_a_match_raises_on_shape_mismatch: "imread demo_env (demo_world (demo_files [1, 2, 0, 0, 0, 0, 0, 0]) [stockholm])
      ''old_images/59_33_18_06.jpg'' = Some \<lparr>shape = [1, 2, 3], data = [0, 0, 0, 0, 0, 0]\<rparr>
  \<and> imread demo_env (demo_world (demo_files [1, 2, 0, 0, 0, 0, 0, 0]) [stockholm])
      ''new_images/59_33_18_06.jpg'' = Some \<lparr>shape = [1, 1, 3], data = [10, 20, 30]\<rparr>
  \<and> images_are_a_match demo_env (demo_world (demo_files [1, 2, 0, 0, 0, 0, 0, 0]) [stockholm])
      ''old_images/59_33_18_06.jpg'' ''new_images/59_33_18_06.jpg'' = Inl CvError"
  by code_simp

text \<open>
  Claim C5. In a run of \<open>main\<close> with a valid key over the registry
  \<open>pre @ entry # post\<close>, if the locations \<open>pre\<close> are processed and the fetch for \<open>entry\<close>
  fails (no answer, or a status from 400 to 599), then \<open>update_images\<close> and \<open>main\<close> end with
  that error in the world reached after \<open>pre\<close> plus the one request: \<open>entry\<close> and \<open>post\<close>
  are untouched, no result is returned, and the registry file is as before the run.
\<close>

theorem fetch_failure_aborts_run:
  assumes "api_key ev = Some k" "k \<noteq> []" "key_matches k"
    and "registry w = Json (Some (pre @ entry # post))"
    and "update_loop ev pre [] w = (Inr rows, pre', w1)"
    and "map_of entry ''lat'' = Some lat" "map_of entry ''long'' = Some long"
    and "net ev (length (requests w1)) (image_url ev lat long (dict_get entry ''zoom'' (PInt 17))) = None
       \<or> (\<exists>status body.
            net ev (length (requests w1)) (image_url ev lat long (dict_get entry ''zoom'' (PInt 17)))
              = Some (status, body) \<and> 400 \<le> status \<and> status < 600)"
  shows "\<exists>err. (err = RequestException \<or> (\<exists>s. err = HTTPError s))
     \<and> update_images ev (Some (pre @ entry # post)) w
         = (Inl err, Some (pre' @ entry # post),
            w1\<lparr>requests := requests w1 @ [image_url ev lat long (dict_get entry ''zoom'' (PInt 17))]\<rparr>)
     \<and> main ev w
         = (Inl err,
            w1\<lparr>requests := requests w1 @ [image_url ev lat long (dict_get entry ''zoom'' (PInt 17))]\<rparr>)
     \<and> registry (snd (main ev w)) = registry w"
proof -
  let ?images_are_a_match_iff_zero_difference_witness = "w1\<lparr>requests := requests w1 @ [image_url ev lat long (dict_get entry ''zoom'' (PInt 17))]\<rparr>"
  from download_image_fails[OF assms(8)] obtain err where
    err: "err = RequestException \<or> (\<exists>s. err = HTTPError s)"
    and dl: "download_image ev lat long (dict_get entry ''zoom'' (PInt 17)) w1 = (Inl err, ?images_are_a_match_iff_zero_difference_witness)"
    by blast
  have step: "update_entry ev entry w1 = (Inl err, entry, ?images_are_a_match_iff_zero_difference_witness)"
    by (rule update_entry_fetch_fails[OF assms(6,7) dl])
  have loop: "update_loop ev (pre @ entry # post) [] w = (Inl err, pre' @ entry # post, ?images_are_a_match_iff_zero_difference_witness)"
    by (simp add: update_loop_append assms(5) step)
  then have run: "update_images ev (Some (pre @ entry # post)) w
      = (Inl err, Some (pre' @ entry # post), ?images_are_a_match_iff_zero_difference_witness)"
    by (simp add: update_images_Some)
  have m: "main ev w = (Inl err, ?images_are_a_match_iff_zero_difference_witness)"
    by (simp add: main_with_registry[OF assms(1-4)] run)
  from update_loop_frame[OF assms(5)] have "registry w1 = registry w" by simp
  with err run m show ?thesis by auto
qed

text \<open>
  The claim at a registry of three locations and a server that answers the first request
  only.
\<close>

theorem fetch_failure_aborts_run_witness:
  "update_loop offline_env [stockholm] [] (demo_world Map.empty [stockholm, oslo, stockholm])
     = (Inr [update_row offline_env (PStr ''Stockholm'') (PStr ''59.33'') (PStr ''18.06'') ''New''
               ''old_images/59_33_18_06.jpg'' ''new_images/59_33_18_06.jpg''],
        [stockholm @ [(''last_pulled'', PStr ''T0''), (''last_changed'', PStr ''T1'')]],
        snd (snd (update_loop offline_env [stockholm] []
                    (demo_world Map.empty [stockholm, oslo, stockholm]))))
   \<and> fst (main offline_env (demo_world Map.empty [stockholm, oslo, stockholm])) = Inl RequestException
   \<and> fst (snd (update_images offline_env (Some [stockholm, oslo, stockholm])
                 (demo_world Map.empty [stockholm, oslo, stockholm])))
       = Some [stockholm @ [(''last_pulled'', PStr ''T0''), (''last_changed'', PStr ''T1'')],
               oslo, stockholm]
   \<and> registry (snd (main offline_env (demo_world Map.empty [stockholm, oslo, stockholm])))
       = Json (Some [stockholm, oslo, stockholm])"
proof -
  let ?w = "demo_world Map.empty [stockholm, oslo, stockholm]"
  let ?w1 = "snd (snd (update_loop offline_env [stockholm] [] ?w))"
  have k: "api_key offline_env = Some ''AAAAAAAAAAAAAAAAAAAAAAAAAAAAAAAAAAAAAAA''"
    "''AAAAAAAAAAAAAAAAAAAAAAAAAAAAAAAAAAAAAAA'' \<noteq> []"
    by (simp_all add: offline_env_def demo_env_def)
  have km: "key_matches ''AAAAAAAAAAAAAAAAAAAAAAAAAAAAAAAAAAAAAAA''" by code_simp
  have reg: "registry ?w = Json (Some ([stockholm] @ oslo # [stockholm]))"
    by (simp add: demo_world_def)
  have 1: "fst (update_loop offline_env [stockholm] [] ?w)
     = Inr [update_row offline_env (PStr ''Stockholm'') (PStr ''59.33'') (PStr ''18.06'') ''New''
               ''old_images/59_33_18_06.jpg'' ''new_images/59_33_18_06.jpg'']" by code_simp
  have 2: "fst (snd (update_loop offline_env [stockholm] [] ?w))
     = [stockholm @ [(''last_pulled'', PStr ''T0''), (''last_changed'', PStr ''T1'')]]" by code_simp
  note pre = pair3I[OF 1 2]
  have lat: "map_of oslo ''lat'' = Some (PStr ''59.91'')" "map_of oslo ''long'' = Some (PStr ''10.75'')"
    by (simp_all add: oslo_def)
  have len: "length (requests ?w1) = 1" by code_simp
  have fail: "net offline_env (length (requests ?w1))
      (image_url offline_env (PStr ''59.91'') (PStr ''10.75'') (dict_get oslo ''zoom'' (PInt 17))) = None"
    unfolding len by (simp add: offline_env_def)
  from fetch_failure_aborts_run[OF k km reg pre lat disjI1[OF fail]] obtain err where
    e: "err = RequestException \<or> (\<exists>s. err = HTTPError s)"
    and r: "update_images offline_env (Some ([stockholm] @ oslo # [stockholm])) ?w
       = (Inl err, Some ([stockholm @ [(''last_pulled'', PStr ''T0''), (''last_changed'', PStr ''T1'')]]
            @ oslo # [stockholm]),
          ?w1\<lparr>requests := requests ?w1 @
              [image_url offline_env (PStr ''59.91'') (PStr ''10.75'') (dict_get oslo ''zoom'' (PInt 17))]\<rparr>)"
    and m: "main offline_env ?w = (Inl err,
          ?w1\<lparr>requests := requests ?w1 @
              [image_url offline_env (PStr ''59.91'') (PStr ''10.75'') (dict_get oslo ''zoom'' (PInt 17))]\<rparr>)"
    and g: "registry (snd (main offline_env ?w)) = registry ?w"
    by blast
  have "fst (main offline_env ?w) = Inl RequestException" by code_simp
  with pre r g reg show ?thesis by simp
qed

text \<open>
  Claim C6, as amended. In a run of \<open>main\<close> with a valid key over an existing registry, when
  \<open>update_images\<close> completes, the result list is non-empty exactly when the registry is, and
  the registry file is saved with the updated metadata exactly when the result list is
  non-empty, whatever the statuses; every saved entry carries its new \<open>last_pulled\<close>.
\<close>

theorem registry_saved_whenever_results:
  assumes "api_key ev = Some k" "k \<noteq> []" "key_matches k"
    and "registry w = Json (Some md)"
    and "update_images ev (Some md) w = (Inr rows, md', w1)"
  shows "(rows \<noteq> [] \<longleftrightarrow> md \<noteq> [])
     \<and> registry (snd (main ev w)) = (if rows \<noteq> [] then Json md' else registry w)
     \<and> (\<exists>es'. md' = Some es' \<and> length es' = length md
          \<and> (\<forall>i<length md. \<exists>t. map_of (es' ! i) ''last_pulled'' = Some (PStr (now ev t))))"
proof -
  from update_images_trace[OF assms(5)] obtain es' where es': "md' = Some es'"
    "length rows = length md" "length es' = length md"
    and tr: "\<forall>i<length md. \<exists>wi wi'. update_entry ev (md ! i) wi = (Inr (rows ! i), es' ! i, wi')"
    by blast
  have "\<exists>t. map_of (es' ! i) ''last_pulled'' = Some (PStr (now ev t))" if "i < length md" for i
  proof -
    from tr that obtain wi wi' where
      "update_entry ev (md ! i) wi = (Inr (rows ! i), es' ! i, wi')" by blast
    then show ?thesis by (rule update_entry_Inr) blast
  qed
  moreover have "registry w1 = registry w"
  proof -
    obtain r es images_are_a_match_iff_zero_difference_witness where loop: "update_loop ev md [] w = (r, es, images_are_a_match_iff_zero_difference_witness)"
      by (cases "update_loop ev md [] w")
    with assms(5) have "images_are_a_match_iff_zero_difference_witness = w1" by (simp add: update_images_Some)
    with update_loop_frame[OF loop] show ?thesis by simp
  qed
  moreover have "registry (snd (main ev w)) = (if rows \<noteq> [] then Json md' else registry w1)"
    by (simp add: main_with_registry[OF assms(1-4)] assms(5) generate_html_registry)
  ultimately show ?thesis using es' by auto
qed

text \<open>
  The amended claim at a run whose only location is unchanged.
\<close>

theorem registry_saved_whenever_results_witness:
  "registry (snd (main demo_env (demo_world (demo_files [1, 1, 10, 20, 30]) [stockholm])))
     = Json (Some [stockholm @ [(''last_pulled'', PStr ''T0'')]])"
proof -
  let ?w = "demo_world (demo_files [1, 1, 10, 20, 30]) [stockholm]"
  have k: "api_key demo_env = Some ''AAAAAAAAAAAAAAAAAAAAAAAAAAAAAAAAAAAAAAA''"
    "''AAAAAAAAAAAAAAAAAAAAAAAAAAAAAAAAAAAAAAA'' \<noteq> []"
    by (simp_all add: demo_env_def)
  have km: "key_matches ''AAAAAAAAAAAAAAAAAAAAAAAAAAAAAAAAAAAAAAA''" by code_simp
  have reg: "registry ?w = Json (Some [stockholm])" by (simp add: demo_world_def)
  have 1: "fst (update_images demo_env (Some [stockholm]) ?w)
     = Inr [update_row demo_env (PStr ''Stockholm'') (PStr ''59.33'') (PStr ''18.06'') ''Unchanged''
               ''old_images/59_33_18_06.jpg'' ''new_images/59_33_18_06.jpg'']" by code_simp
  have 2: "fst (snd (update_images demo_env (Some [stockholm]) ?w))
     = Some [stockholm @ [(''last_pulled'', PStr ''T0'')]]" by code_simp
  from registry_saved_whenever_results[OF k km reg pair3I[OF 1 2]] show ?thesis by simp
qed

text \<open>
  The claim as stated fails: in a run whose only location is \<open>Unchanged\<close> the registry file
  is saved with the new \<open>last_pulled\<close>.
\<close>

theorem unchanged_run_persists_last_pulled:
  "fst (update_images demo_env (Some [stockholm])
          (demo_world (demo_files [1, 1, 10, 20, 30]) [stockholm]))
     = Inr [[(''Name'', PStr ''Stockholm''), (''Location'', PStr ''59.33, 18.06''),
             (''Status'', PStr ''Unchanged''),
             (''old_image'', PPath ''/home/user/old_images/59_33_18_06.jpg''),
             (''new_image'', PPath ''/home/user/new_images/59_33_18_06.jpg'')]]
   \<and> registry (demo_world (demo_files [1, 1, 10, 20, 30]) [stockholm]) = Json (Some [stockholm])
   \<and> registry (snd (main demo_env (demo_world (demo_files [1, 1, 10, 20, 30]) [stockholm])))
     = Json (Some [stockholm @ [(''last_pulled'', PStr ''T0'')]])"
  by code_simp

text \<open>
  Claim C7, as amended. A completed pass sends one request per location, in order; the zoom
  in the address of the \<open>i\<close>-th request is the \<open>zoom\<close> value of the \<open>i\<close>-th entry when the
  entry has that key (also when the value is zero), and 17 when the key is absent.
\<close>

theorem fetch_uses_entry_zoom_or_17:
  assumes "update_images ev (Some md) w = (Inr rows, md', w')"
  shows "length (requests w') = length (requests w) + length md
         \<and> (\<forall>i<length md. requests w' ! (length (requests w) + i)
              = image_url ev (the (map_of (md ! i) ''lat'')) (the (map_of (md ! i) ''long''))
                  (case map_of (md ! i) ''zoom'' of None \<Rightarrow> PInt 17 | Some z \<Rightarrow> z))"
proof -
  from update_images_trace[OF assms] have "requests w' = requests w @ map (entry_url ev) md"
    by auto
  then show ?thesis by (simp add: nth_append entry_url_def)
qed

text \<open>
  The amended claim at a run over one location with zoom 17.
\<close>

theorem fetch_uses_entry_zoom_or_17_witness:
  "requests (snd (snd (update_images demo_env (Some [stockholm])
       (demo_world Map.empty [stockholm]))))
     = [image_url demo_env (PStr ''59.33'') (PStr ''18.06'') (PInt 17)]"
proof -
  let ?w = "demo_world Map.empty [stockholm]"
  let ?w' = "snd (snd (update_images demo_env (Some [stockholm]) ?w))"
  have 1: "fst (update_images demo_env (Some [stockholm]) ?w)
     = Inr [update_row demo_env (PStr ''Stockholm'') (PStr ''59.33'') (PStr ''18.06'') ''New''
               ''old_images/59_33_18_06.jpg'' ''new_images/59_33_18_06.jpg'']" by code_simp
  have run: "update_images demo_env (Some [stockholm]) ?w
     = (Inr [update_row demo_env (PStr ''Stockholm'') (PStr ''59.33'') (PStr ''18.06'') ''New''
               ''old_images/59_33_18_06.jpg'' ''new_images/59_33_18_06.jpg''],
        fst (snd (update_images demo_env (Some [stockholm]) ?w)), ?w')"
    by (rule pair3I[OF 1 refl])
  have r0: "requests ?w = []" by (simp add: demo_world_def)
  have z: "map_of stockholm ''lat'' = Some (PStr ''59.33'')"
    "map_of stockholm ''long'' = Some (PStr ''18.06'')"
    "map_of stockholm ''zoom'' = Some (PInt 17)"
    by (simp_all add: stockholm_def)
  from fetch_uses_entry_zoom_or_17[OF run] have l: "length (requests ?w') = 1"
    and n: "requests ?w' ! 0 = image_url demo_env (PStr ''59.33'') (PStr ''18.06'') (PInt 17)"
    by (simp_all add: r0 z)
  then show ?thesis by (cases "requests ?w'") simp_all
qed

text \<open>
  The claim as stated fails: for a location with \<open>zoom\<close> zero the request carries
  \<open>zoom=0\<close>, not the default 17.
\<close>

theorem zoom_zero_is_sent_as_zero:
  "map_of oslo ''zoom'' = Some (PInt 0)
   \<and> requests (snd (snd (update_images demo_env (Some [oslo]) (demo_world Map.empty [oslo]))))
     = [''https://maps.googleapis.com/maps/api/staticmap?&zoom=0&size=600x300&maptype=hybrid&markers=color:red%7Clabel:S%7C59.91,10.75&key=AAAAAAAAAAAAAAAAAAAAAAAAAAAAAAAAAAAAAAA'']
   \<and> image_url demo_env (PStr ''59.91'') (PStr ''10.75'') (PInt 17)
     = ''https://maps.googleapis.com/maps/api/staticmap?&zoom=17&size=600x300&maptype=hybrid&markers=color:red%7Clabel:S%7C59.91,10.75&key=AAAAAAAAAAAAAAAAAAAAAAAAAAAAAAAAAAAAAAA''"
  by code_simp

text \<open>
  Claim C8, as amended. \<open>format_filename\<close> is a function of the texts of its two arguments;
  on coordinate texts that contain neither \<open>_\<close> nor \<open>n\<close> and whose latitudes have the same
  number of dots (in particular on plain decimals with one decimal point each) two pairs get
  the same file name only if they are the same pair; \<open>(59.33, 18.06)\<close> gives
  \<open>59_33_18_06.jpg\<close> and \<open>(-1.0, 2.0)\<close> gives \<open>n1_0_2_0.jpg\<close>.
\<close>

theorem format_filename_injective_on_decimals:
  assumes "CHR ''_'' \<notin> set (py_str lat) \<union> set (py_str long) \<union> set (py_str lat') \<union> set (py_str long')"
    and "CHR ''n'' \<notin> set (py_str lat) \<union> set (py_str long) \<union> set (py_str lat') \<union> set (py_str long')"
    and "count_list (py_str lat) CHR ''.'' = count_list (py_str lat') CHR ''.''"
  shows "(format_filename lat long = format_filename lat' long'
            \<longleftrightarrow> py_str lat = py_str lat' \<and> py_str long = py_str long')
         \<and> format_filename (PFloat ''59.33'') (PFloat ''18.06'') = ''59_33_18_06.jpg''
         \<and> format_filename (PFloat ''-1.0'') (PFloat ''2.0'') = ''n1_0_2_0.jpg''"
proof -
  have "py_str lat = py_str lat' \<and> py_str long = py_str long'"
    if eq: "format_filename lat long = format_filename lat' long'"
  proof -
    from eq have "map escape_char (py_str lat) @ CHR ''_'' # map escape_char (py_str long)
        = map escape_char (py_str lat') @ CHR ''_'' # map escape_char (py_str long')"
      by (simp add: format_filename_map)
    with assms have "py_str lat = py_str lat'
        \<and> map escape_char (py_str long) = map escape_char (py_str long')"
      by (intro escaped_split) auto
    with assms show ?thesis by (auto dest: map_escape_inj)
  qed
  moreover have "format_filename lat long = format_filename lat' long'"
    if "py_str lat = py_str lat' \<and> py_str long = py_str long'"
    using that by (simp add: format_filename_def)
  moreover have "format_filename (PFloat ''59.33'') (PFloat ''18.06'') = ''59_33_18_06.jpg''"
    by (simp add: format_filename_def replace_def)
  moreover have "format_filename (PFloat ''-1.0'') (PFloat ''2.0'') = ''n1_0_2_0.jpg''"
    by (simp add: format_filename_def replace_def)
  ultimately show ?thesis by blast
qed

theorem format_filename_injective_on_decimals_witness:
  "CHR ''_'' \<notin> set ''59.33'' \<union> set ''18.06'' \<union> set ''59.34'' \<union> set ''18.06''
   \<and> CHR ''n'' \<notin> set ''59.33'' \<union> set ''18.06'' \<union> set ''59.34'' \<union> set ''18.06''
   \<and> count_list ''59.33'' CHR ''.'' = count_list ''59.34'' CHR ''.''
   \<and> format_filename (PStr ''59.33'') (PStr ''18.06'')
       \<noteq> format_filename (PStr ''59.34'') (PStr ''18.06'')"
  using format_filename_injective_on_decimals
    [of "PStr ''59.33''" "PStr ''18.06''" "PStr ''59.34''" "PStr ''18.06''"]
  by simp

text \<open>The claim as stated fails: the pairs \<open>(1.2, 3)\<close> and \<open>(1, 2.3)\<close>, written as in the
  registry template, differ and get the same file name.\<close>

theorem format_filename_collision:
  "format_filename (PStr ''1.2'') (PStr ''3'') = format_filename (PStr ''1'') (PStr ''2.3'')
   \<and> (PStr ''1.2'', PStr ''3'') \<noteq> (PStr ''1'', PStr ''2.3'')"
  by (simp add: format_filename_def replace_def)

text \<open>
  Claim C9, evaluated on the code. A run whose only location has the status \<open>Changed\<close>
  writes a report without any image pair: the template tests the key \<open>status\<close>, the result
  dictionaries carry \<open>Status\<close>.
\<close>

theorem changed_entry_not_rendered:
  "fst (update_images demo_env (Some [stockholm])
          (demo_world (demo_files [1, 1, 10, 20, 31]) [stockholm]))
     = Inr [[(''Name'', PStr ''Stockholm''), (''Location'', PStr ''59.33, 18.06''),
             (''Status'', PStr ''Changed''),
             (''old_image'', PPath ''/home/user/old_images/59_33_18_06.jpg''),
             (''new_image'', PPath ''/home/user/new_images/59_33_18_06.jpg'')]]
   \<and> html_report (snd (main demo_env (demo_world (demo_files [1, 1, 10, 20, 31]) [stockholm])))
     = Some (HTML_HEAD @ ''\<newline>                \<newline>            '' @ HTML_TAIL)"
  by code_simp

text \<open>
  Claim C10. Whatever the outcome of \<open>update_images\<close>, the metadata is afterwards a list of
  the same length whose \<open>i\<close>-th entry agrees with the \<open>i\<close>-th input entry on every key other
  than \<open>last_pulled\<close> and \<open>last_changed\<close> (so on \<open>lat\<close>, \<open>long\<close>, \<open>zoom\<close> and \<open>name\<close>): no
  entry is added, removed or reordered.
\<close>

theorem update_images_preserves_other_fields:
  assumes "update_images ev (Some md) w = (r, md', w')"
  shows "\<exists>es'. md' = Some es' \<and> length es' = length md \<and>
           (\<forall>i<length md. \<forall>k. k \<noteq> ''last_pulled'' \<and> k \<noteq> ''last_changed''
              \<longrightarrow> map_of (es' ! i) k = map_of (md ! i) k)"
proof (cases "md = []")
  case True
  with assms show ?thesis by (simp add: update_images_def)
next
  case False
  obtain r1 es1 w1 where loop: "update_loop ev md [] w = (r1, es1, w1)"
    by (cases "update_loop ev md [] w")
  with assms False have "md' = Some es1" by (simp add: update_images_def)
  moreover from update_loop_frame[OF loop] have "list_all2 same_fields md es1" by simp
  ultimately show ?thesis
    by (simp add: list_all2_conv_all_nth same_fields_def)
qed

theorem update_images_preserves_other_fields_witness:
  "\<exists>es'. fst (snd (update_images demo_env (Some [stockholm]) (demo_world Map.empty [stockholm])))
            = Some es' \<and> length es' = length [stockholm] \<and>
          (\<forall>i<length [stockholm]. \<forall>k. k \<noteq> ''last_pulled'' \<and> k \<noteq> ''last_changed''
              \<longrightarrow> map_of (es' ! i) k = map_of ([stockholm] ! i) k)"
  using update_images_preserves_other_fields
    [of demo_env "[stockholm]" "demo_world Map.empty [stockholm]"
        "fst (update_images demo_env (Some [stockholm]) (demo_world Map.empty [stockholm]))"
        "fst (snd (update_images demo_env (Some [stockholm]) (demo_world Map.empty [stockholm])))"
        "snd (snd (update_images demo_env (Some [stockholm]) (demo_world Map.empty [stockholm])))"]
  by simp

end
